theory Spec2Isabelle
  imports Complex_Main
begin

section \<open>Python values and exceptions\<close>

text \<open>
  The dashboard (\<^verbatim>\<open>dashboard_new.py\<close>) is Python. Every call of the program can raise, so
  a computation returns \<open>exn + 'a\<close>: \<open>Inl e\<close> is the exception \<open>e\<close> in flight, \<open>Inr v\<close> the
  value returned. Only subclasses of \<^verbatim>\<open>Exception\<close> are modelled (the ones a
  \<^verbatim>\<open>except Exception\<close> clause catches). An exception carries its class and the text
  \<^verbatim>\<open>str(e)\<close> that the f-strings of the program interpolate. \<open>ProviderError\<close> stands for
  the exceptions of the provider's library (network errors, rate limiting).
\<close>

datatype exn_class = KeyError | TypeError | ValueError | AttributeError | ProviderError

datatype exn = Exn exn_class string

fun str_exn :: "exn \<Rightarrow> string" where
  "str_exn (Exn c m) = m"

definition and_then :: "exn + 'a \<Rightarrow> ('a \<Rightarrow> exn + 'b) \<Rightarrow> exn + 'b" where
  "and_then r f = (case r of Inl e \<Rightarrow> Inl e | Inr v \<Rightarrow> f v)"

text \<open>
  The scalar values the provider's summary dictionary can hold. A \<^verbatim>\<open>float\<close> stands for a
  finite double, idealised as the real number it denotes.
\<close>

datatype pyval = PyNone | PyBool bool | PyInt int | PyFloat real | PyStr string

text \<open>A \<^verbatim>\<open>dict\<close> with string keys, in insertion order.\<close>

type_synonym pydict = "(string \<times> pyval) list"

text \<open>\<^verbatim>\<open>d.get(key, default)\<close>\<close>

definition dict_get :: "pydict \<Rightarrow> string \<Rightarrow> pyval \<Rightarrow> pyval" where
  "dict_get d k dflt = (case map_of d k of None \<Rightarrow> dflt | Some v \<Rightarrow> v)"

text \<open>Truth value of an object, as an \<^verbatim>\<open>if\<close> tests it.\<close>

fun truthy :: "pyval \<Rightarrow> bool" where
  "truthy PyNone = False"
| "truthy (PyBool b) = b"
| "truthy (PyInt n) = (n \<noteq> 0)"
| "truthy (PyFloat x) = (x \<noteq> 0)"
| "truthy (PyStr s) = (s \<noteq> [])"

section \<open>Data frames\<close>

text \<open>
  A \<^verbatim>\<open>pandas.DataFrame\<close> of numeric columns: the row labels (\<open>index\<close>) and the columns in
  order, each a label with its cells. A cell is \<open>None\<close> where pandas holds NaN (null).
\<close>

type_synonym cell = "real option"

record frame =
  index :: "string list"
  columns :: "(string \<times> cell list) list"

text \<open>\<^verbatim>\<open>pd.DataFrame()\<close>\<close>

definition DataFrame :: frame where
  "DataFrame = \<lparr>index = [], columns = []\<rparr>"

text \<open>\<^verbatim>\<open>df.empty\<close>: one of the axes has length 0.\<close>

definition frame_empty :: "frame \<Rightarrow> bool" where
  "frame_empty f = (index f = [] \<or> columns f = [])"

definition repr_str :: "string \<Rightarrow> string" where
  "repr_str s = [CHR 0x27] @ s @ [CHR 0x27]"

text \<open>\<^verbatim>\<open>df[name]\<close>: the column, or \<^verbatim>\<open>KeyError(name)\<close>.\<close>

definition getitem :: "frame \<Rightarrow> string \<Rightarrow> exn + cell list" where
  "getitem f name =
     (case map_of (columns f) name of
        None \<Rightarrow> Inl (Exn KeyError (repr_str name))
      | Some col \<Rightarrow> Inr col)"

text \<open>
  \<^verbatim>\<open>df[name] = series\<close>: replaces the column in place when the label exists, appends it
  otherwise.
\<close>

fun set_column :: "string \<Rightarrow> cell list \<Rightarrow> (string \<times> cell list) list \<Rightarrow> (string \<times> cell list) list" where
  "set_column name col [] = [(name, col)]"
| "set_column name col ((k, c) # cs) =
     (if k = name then (k, col) # cs else (k, c) # set_column name col cs)"

definition setitem :: "frame \<Rightarrow> string \<Rightarrow> cell list \<Rightarrow> frame" where
  "setitem f name col = f\<lparr>columns := set_column name col (columns f)\<rparr>"

text \<open>
  \<^verbatim>\<open>df[[l1, ..., ln]]\<close>: the columns with these labels, in the order asked; a label that
  is not a column raises \<^verbatim>\<open>KeyError\<close> (naming the missing labels).
\<close>

definition missing_labels :: "frame \<Rightarrow> string list \<Rightarrow> string list" where
  "missing_labels f labels = filter (\<lambda>l. l \<notin> set (map fst (columns f))) labels"

definition select_columns :: "frame \<Rightarrow> string list \<Rightarrow> exn + frame" where
  "select_columns f labels =
     (if missing_labels f labels = []
      then Inr (f\<lparr>columns := concat (map (\<lambda>l. filter (\<lambda>kc. fst kc = l) (columns f)) labels)\<rparr>)
      else Inl (Exn KeyError (concat (map repr_str (missing_labels f labels)) @ '' not in index'')))"

text \<open>Cell \<open>i\<close> of a column; NaN past its end.\<close>

definition cell_at :: "cell list \<Rightarrow> nat \<Rightarrow> cell" where
  "cell_at col i = (if i < length col then col ! i else None)"

text \<open>\<^verbatim>\<open>df.T\<close>: rows become columns and columns rows.\<close>

definition transpose_frame :: "frame \<Rightarrow> frame" where
  "transpose_frame f =
     \<lparr>index = map fst (columns f),
      columns = map (\<lambda>i. (index f ! i, map (\<lambda>kc. cell_at (snd kc) i) (columns f)))
                    [0..<length (index f)]\<rparr>"

text \<open>The rows of a frame: label and cells.\<close>

definition frame_rows :: "frame \<Rightarrow> (string \<times> cell list) list" where
  "frame_rows f = columns (transpose_frame f)"

text \<open>
  \<^verbatim>\<open>left.join(right)\<close>: a left join on the index. Every row of \<open>left\<close> is paired with the
  rows of \<open>right\<close> that carry its label, or with NaN cells when there is none. Column
  labels present on both sides raise \<^verbatim>\<open>ValueError\<close>.
\<close>

definition join_rows :: "frame \<Rightarrow> frame \<Rightarrow> (string \<times> cell list) list" where
  "join_rows left right =
     concat (map (\<lambda>(k, cells).
        (case filter (\<lambda>r. fst r = k) (frame_rows right) of
           [] \<Rightarrow> [(k, cells @ replicate (length (columns right)) None)]
         | ms \<Rightarrow> map (\<lambda>r. (k, cells @ snd r)) ms)) (frame_rows left))"

definition join :: "frame \<Rightarrow> frame \<Rightarrow> exn + frame" where
  "join left right =
     (if \<exists>l \<in> set (map fst (columns left)). l \<in> set (map fst (columns right))
      then Inl (Exn ValueError ''columns overlap but no suffix specified'')
      else Inr (let labels = map fst (columns left) @ map fst (columns right);
                    rs = join_rows left right
                in \<lparr>index = map fst rs,
                    columns = map (\<lambda>j. (labels ! j, map (\<lambda>r. cell_at (snd r) j) rs))
                                  [0..<length labels]\<rparr>))"

section \<open>Indicators\<close>

text \<open>The observations (non-NaN cells) of a window.\<close>

primrec observed :: "cell list \<Rightarrow> real list" where
  "observed [] = []"
| "observed (c # cs) = (case c of None \<Rightarrow> observed cs | Some x \<Rightarrow> x # observed cs)"

text \<open>The trailing window of at most \<open>n\<close> rows that ends at row \<open>i\<close>.\<close>

definition window_at :: "nat \<Rightarrow> cell list \<Rightarrow> nat \<Rightarrow> cell list" where
  "window_at n xs i = drop (Suc i - n) (take (Suc i) xs)"

definition mean :: "real list \<Rightarrow> real" where
  "mean xs = sum_list xs / real (length xs)"

text \<open>
  \<^verbatim>\<open>series.rolling(window=n).mean()\<close>: \<^verbatim>\<open>min_periods\<close> defaults to the window, so a row
  has a value only when its window holds \<open>n\<close> observations.
\<close>

definition rolling_mean :: "nat \<Rightarrow> cell list \<Rightarrow> cell list" where
  "rolling_mean n xs =
     map (\<lambda>i. let obs = observed (window_at n xs i)
              in if n \<le> length obs \<and> obs \<noteq> [] then Some (mean obs) else None)
         [0..<length xs]"

text \<open>
  \<^verbatim>\<open>series.rolling(window=n).std()\<close>: the sample standard deviation (\<^verbatim>\<open>ddof=1\<close>) of the
  window, under the same \<^verbatim>\<open>min_periods\<close>.
\<close>

definition sample_std :: "real list \<Rightarrow> real" where
  "sample_std xs = sqrt (sum_list (map (\<lambda>x. (x - mean xs)\<^sup>2) xs) / real (length xs - 1))"

definition rolling_std :: "nat \<Rightarrow> cell list \<Rightarrow> cell list" where
  "rolling_std n xs =
     map (\<lambda>i. let obs = observed (window_at n xs i)
              in if n \<le> length obs \<and> 1 < length obs then Some (sample_std obs) else None)
         [0..<length xs]"

text \<open>
  \<^verbatim>\<open>series.ewm(span=s, adjust=False).mean()\<close>: with \<open>\<alpha> = 2 / (s + 1)\<close>, the first
  observation starts the average and each later one updates it,
  \<open>y\<^sub>t = (1 - \<alpha>) y\<^sub>t\<^sub>-\<^sub>1 + \<alpha> x\<^sub>t\<close>. There is no \<^verbatim>\<open>min_periods\<close>: a row is NaN only before the
  first observation. A NaN row after it repeats the average and ages its weight
  (\<^verbatim>\<open>ignore_na=False\<close>). The state is the average so far and the weight of that average.
\<close>

fun ewm_from :: "real \<Rightarrow> real option \<Rightarrow> real \<Rightarrow> cell list \<Rightarrow> cell list" where
  "ewm_from \<alpha> avg old_wt [] = []"
| "ewm_from \<alpha> None old_wt (x # xs) = x # ewm_from \<alpha> x old_wt xs"
| "ewm_from \<alpha> (Some m) old_wt (None # xs) =
     Some m # ewm_from \<alpha> (Some m) (old_wt * (1 - \<alpha>)) xs"
| "ewm_from \<alpha> (Some m) old_wt (Some x # xs) =
     (let wt = old_wt * (1 - \<alpha>);
          m' = (wt * m + \<alpha> * x) / (wt + \<alpha>)
      in Some m' # ewm_from \<alpha> (Some m') 1 xs)"

definition ewm_mean :: "nat \<Rightarrow> cell list \<Rightarrow> cell list" where
  "ewm_mean s xs = ewm_from (2 / (real s + 1)) None 1 xs"

section \<open>Formatting\<close>

text \<open>
  The format specification \<^verbatim>\<open>.2f\<close>: the number rounded to two decimals (a tie goes to
  the even neighbour), written with its sign, its integer digits, a point and exactly two
  decimals.
\<close>

definition digit_char :: "nat \<Rightarrow> char" where
  "digit_char d = ''0123456789'' ! (d mod 10)"

fun show_nat :: "nat \<Rightarrow> string" where
  "show_nat n = (if n < 10 then [digit_char n] else show_nat (n div 10) @ [digit_char (n mod 10)])"

declare show_nat.simps [simp del]

definition round_half_even :: "real \<Rightarrow> int" where
  "round_half_even x =
     (let f = \<lfloor>x\<rfloor>; r = x - of_int f
      in if r < 1 / 2 then f else if 1 / 2 < r then f + 1 else if even f then f else f + 1)"

definition format_2f :: "real \<Rightarrow> string" where
  "format_2f x =
     (let n = nat (round_half_even (\<bar>x\<bar> * 100))
      in (if x < 0 then ''-'' else []) @ show_nat (n div 100) @ ''.'' @
         [digit_char (n mod 100 div 10), digit_char (n mod 10)])"



text \<open>\<^verbatim>\<open>format(v, '.2f')\<close> on an object: numbers only.\<close>

fun format_spec_2f :: "pyval \<Rightarrow> exn + string" where
  "format_spec_2f (PyFloat x) = Inr (format_2f x)"
| "format_spec_2f (PyInt n) = Inr (format_2f (of_int n))"
| "format_spec_2f (PyBool b) = Inr (format_2f (if b then 1 else 0))"
| "format_spec_2f (PyStr s) = Inl (Exn ValueError ''Unknown format code f for object of type str'')"
| "format_spec_2f PyNone = Inl (Exn TypeError ''unsupported format string passed to NoneType.__format__'')"

text \<open>\<^verbatim>\<open>v * k\<close> for an integer literal \<open>k\<close>: numbers multiply, a string repeats.\<close>

fun py_mul :: "pyval \<Rightarrow> int \<Rightarrow> exn + pyval" where
  "py_mul (PyFloat x) k = Inr (PyFloat (x * of_int k))"
| "py_mul (PyInt n) k = Inr (PyInt (n * k))"
| "py_mul (PyBool b) k = Inr (PyInt ((if b then 1 else 0) * k))"
| "py_mul (PyStr s) k = Inr (PyStr (concat (replicate (nat k) s)))"
| "py_mul PyNone k = Inl (Exn TypeError ''unsupported operand type(s) for *: NoneType and int'')"

section \<open>The metrics of a stock\<close>

text \<open>
  \<^verbatim>\<open>f"{info.get('dividendYield', 0)*100:.2f}%" if info.get('dividendYield') else 'N/A'\<close>
\<close>

definition dividend_yield_entry :: "pydict \<Rightarrow> exn + pyval" where
  "dividend_yield_entry info =
     (if truthy (dict_get info ''dividendYield'' PyNone)
      then and_then (py_mul (dict_get info ''dividendYield'' (PyInt 0)) 100) (\<lambda>v.
           and_then (format_spec_2f v) (\<lambda>s. Inr (PyStr (s @ ''%''))))
      else Inr (PyStr ''N/A''))"

text \<open>The dictionary \<^verbatim>\<open>metrics\<close> that \<^verbatim>\<open>fetch_stock_data_safe\<close> builds from \<^verbatim>\<open>stock.info\<close>.\<close>

definition stock_metrics :: "pydict \<Rightarrow> exn + pydict" where
  "stock_metrics info =
     and_then (dividend_yield_entry info) (\<lambda>dy.
       Inr [(''PE Ratio'', dict_get info ''trailingPE'' (PyStr ''N/A'')),
            (''Dividend Yield'', dy),
            (''Beta'', dict_get info ''beta'' (PyStr ''N/A'')),
            (''Market Cap'', dict_get info ''marketCap'' (PyStr ''N/A''))])"

section \<open>The indicators of an index\<close>

text \<open>
  The three assignments of \<^verbatim>\<open>fetch_index_data_safe\<close>; each reads \<^verbatim>\<open>hist['Close']\<close> again.
\<close>

definition add_indicators :: "frame \<Rightarrow> exn + frame" where
  "add_indicators hist =
     and_then (getitem hist ''Close'') (\<lambda>c1.
       let hist1 = setitem hist ''SMA_20'' (rolling_mean 20 c1) in
       and_then (getitem hist1 ''Close'') (\<lambda>c2.
         let hist2 = setitem hist1 ''EMA_20'' (ewm_mean 20 c2) in
         and_then (getitem hist2 ''Close'') (\<lambda>c3.
           Inr (setitem hist2 ''Volatility'' (rolling_std 20 c3)))))"

section \<open>The financial snapshot\<close>

definition balance_items :: "string list" where
  "balance_items = [''Total Assets'', ''Total Debt'']"

definition income_items :: "string list" where
  "income_items = [''Total Revenue'', ''EBITDA'', ''Basic EPS'', ''Operating Income'',
                   ''Operating Expense'']"

text \<open>
  The table that \<^verbatim>\<open>metrics_table_safe\<close> computes from the income statement and the
  balance sheet of the provider (line items as rows, reporting periods as columns).
\<close>

definition financial_table :: "frame \<Rightarrow> frame \<Rightarrow> exn + frame" where
  "financial_table fin bs =
     and_then (select_columns (transpose_frame bs) balance_items) (\<lambda>output1.
       and_then (select_columns (transpose_frame fin) income_items) (\<lambda>output2.
         and_then (join output1 output2) (\<lambda>output.
           Inr (transpose_frame output))))"

section \<open>The world: provider, clock, screen and cache\<close>

text \<open>
  What \<^verbatim>\<open>yf.Ticker(symbol)\<close> gives: the answers of the provider to the four queries of
  the program, each a value or an exception. The history takes the lookback period.
\<close>

record ticker_obj =
  history :: "string \<Rightarrow> exn + frame"
  info :: "exn + pydict"
  financials :: "exn + frame"
  balance_sheet :: "exn + frame"

datatype endpoint = History | Info | Financials | BalanceSheet

datatype func = FetchIndex | FetchStock | MetricsTable

text \<open>
  What the program does to the outside, in order: calls of the cached functions, queries
  to the provider, \<^verbatim>\<open>time.sleep\<close>, and what it puts on the screen.
\<close>

datatype event =
    Call func string
  | Request endpoint string
  | Sleep nat
  | Warning string
  | Error string
  | Title string
  | SidebarTitle string
  | Write string
  | Dataframe frame
  | Metric string pyval
  | LineChart "(string \<times> cell list) list"

text \<open>
  The provider is a stream: \<open>provider w n symbol\<close> is what the \<open>n\<close>-th next
  \<^verbatim>\<open>yf.Ticker(symbol)\<close> will answer. The clock counts seconds. The three caches map a symbol
  to a stored result and the time it was stored.
\<close>

record world =
  provider :: "nat \<Rightarrow> string \<Rightarrow> ticker_obj"
  clock :: nat
  trace :: "event list"
  index_cache :: "string \<rightharpoonup> frame \<times> nat"
  stock_cache :: "string \<rightharpoonup> (frame \<times> pydict) \<times> nat"
  metrics_cache :: "string \<rightharpoonup> frame \<times> nat"

definition emit :: "event \<Rightarrow> world \<Rightarrow> world" where
  "emit e w = w\<lparr>trace := trace w @ [e]\<rparr>"

definition st_warning :: "string \<Rightarrow> world \<Rightarrow> world" where
  "st_warning msg = emit (Warning msg)"

definition st_error :: "string \<Rightarrow> world \<Rightarrow> world" where
  "st_error msg = emit (Error msg)"

definition time_sleep :: "nat \<Rightarrow> world \<Rightarrow> world" where
  "time_sleep s w = emit (Sleep s) (w\<lparr>clock := clock w + s\<rparr>)"

definition yf_Ticker :: "string \<Rightarrow> world \<Rightarrow> ticker_obj \<times> world" where
  "yf_Ticker symbol w = (provider w 0 symbol, w\<lparr>provider := (\<lambda>n. provider w (Suc n))\<rparr>)"

section \<open>Safe fetching with retry\<close>

text \<open>
  The loop shared by the three fetch functions:
  \<^verbatim>\<open>
  for attempt in range(n):
      try:
          ...; return value
      except Exception as e:
          st.warning(msg(e)); time.sleep(60)
  \<close>
  \<open>Some v\<close> is the value returned from inside the loop, \<open>None\<close> the loop running out.
\<close>

fun retry :: "nat \<Rightarrow> (world \<Rightarrow> (exn + 'a) \<times> world) \<Rightarrow> (exn \<Rightarrow> string) \<Rightarrow> world \<Rightarrow> 'a option \<times> world" where
  "retry 0 body msg w = (None, w)"
| "retry (Suc n) body msg w =
     (case body w of
        (Inr v, w1) \<Rightarrow> (Some v, w1)
      | (Inl e, w1) \<Rightarrow> retry n body msg (time_sleep 60 (st_warning (msg e) w1)))"

text \<open>The texts of the warnings, \<^verbatim>\<open>f"Error fetching {ticker}: {e}. Retrying in 60 seconds..."\<close>.\<close>

definition fetch_warning :: "string \<Rightarrow> exn \<Rightarrow> string" where
  "fetch_warning ticker e =
     ''Error fetching '' @ ticker @ '': '' @ str_exn e @ ''. Retrying in 60 seconds...''"

definition financial_warning :: "string \<Rightarrow> exn \<Rightarrow> string" where
  "financial_warning ticker e =
     ''Error fetching financial data for '' @ ticker @ '': '' @ str_exn e @
     ''. Retrying in 60 seconds...''"

definition index_attempt :: "string \<Rightarrow> world \<Rightarrow> (exn + frame) \<times> world" where
  "index_attempt ticker w =
     (let (tk, w1) = yf_Ticker ticker w;
          w2 = emit (Request History ticker) w1
      in (and_then (history tk ''1y'') add_indicators, w2))"

definition fetch_index_data_safe :: "string \<Rightarrow> world \<Rightarrow> (exn + frame) \<times> world" where
  "fetch_index_data_safe ticker w =
     (case retry 5 (index_attempt ticker) (fetch_warning ticker) w of
        (Some hist, w1) \<Rightarrow> (Inr hist, w1)
      | (None, w1) \<Rightarrow>
          (Inr DataFrame,
           st_error (''Could not fetch data for '' @ ticker @ '' after multiple attempts.'') w1))"

definition stock_attempt :: "string \<Rightarrow> world \<Rightarrow> (exn + frame \<times> pydict) \<times> world" where
  "stock_attempt ticker w =
     (let (stock, w1) = yf_Ticker ticker w;
          w2 = emit (Request History ticker) w1
      in case history stock ''1y'' of
           Inl e \<Rightarrow> (Inl e, w2)
         | Inr hist \<Rightarrow>
             (let w3 = emit (Request Info ticker) w2
              in (and_then (info stock) (\<lambda>i.
                    and_then (stock_metrics i) (\<lambda>metrics. Inr (hist, metrics))), w3)))"

definition fetch_stock_data_safe :: "string \<Rightarrow> world \<Rightarrow> (exn + frame \<times> pydict) \<times> world" where
  "fetch_stock_data_safe ticker w =
     (case retry 5 (stock_attempt ticker) (fetch_warning ticker) w of
        (Some r, w1) \<Rightarrow> (Inr r, w1)
      | (None, w1) \<Rightarrow>
          (Inr (DataFrame, []),
           st_error (''Could not fetch data for '' @ ticker @ '' after multiple attempts.'') w1))"

definition metrics_attempt :: "string \<Rightarrow> world \<Rightarrow> (exn + frame) \<times> world" where
  "metrics_attempt ticker w =
     (let (stock, w1) = yf_Ticker ticker w;
          w2 = emit (Request Financials ticker) w1
      in case financials stock of
           Inl e \<Rightarrow> (Inl e, w2)
         | Inr fin \<Rightarrow>
             (let w3 = emit (Request BalanceSheet ticker) w2
              in (and_then (balance_sheet stock) (\<lambda>bs. financial_table fin bs), w3)))"

definition metrics_table_safe :: "string \<Rightarrow> world \<Rightarrow> (exn + frame) \<times> world" where
  "metrics_table_safe ticker w =
     (case retry 5 (metrics_attempt ticker) (financial_warning ticker) w of
        (Some r, w1) \<Rightarrow> (Inr r, w1)
      | (None, w1) \<Rightarrow>
          (Inr DataFrame,
           st_error (''Could not fetch financial data for '' @ ticker @ '' after multiple attempts.'') w1))"

section \<open>The cache\<close>

text \<open>
  Modelled from the spec: the decorator \<^verbatim>\<open>@st.cache_data(ttl=3600)\<close> and
  \<^verbatim>\<open>st.cache_data.clear()\<close> belong to the Streamlit library, whose code is not in the
  repository. The spec (sections 3 and 4.2): an entry is keyed by the function and its
  symbol argument and holds the result with the time it was created; it is invalid once
  its age exceeds the time-to-live; a hit returns the stored result without contacting the
  provider or running the retries; manual invalidation clears the entire cache.
\<close>

definition cache_lookup :: "nat \<Rightarrow> nat \<Rightarrow> (string \<rightharpoonup> 'a \<times> nat) \<Rightarrow> string \<Rightarrow> 'a option" where
  "cache_lookup ttl now c key =
     (case c key of
        None \<Rightarrow> None
      | Some (v, created) \<Rightarrow> if now \<le> created + ttl then Some v else None)"

text \<open>
  Modelled from the spec: \<^verbatim>\<open>st.cache_data.clear()\<close>, the manual invalidation, empties
  the caches of all the functions.
\<close>

definition st_cache_data_clear :: "world \<Rightarrow> world" where
  "st_cache_data_clear w =
     w\<lparr>index_cache := Map.empty, stock_cache := Map.empty, metrics_cache := Map.empty\<rparr>"

text \<open>
  Modelled from the spec: the three functions as the decorator leaves them, which is what
  the name of each denotes in the rest of the program. A call is recorded; a valid entry
  is returned as it is; otherwise the function runs and its result is stored with the time
  of its return. An exception stores nothing.
\<close>

definition cached_fetch_index_data_safe :: "string \<Rightarrow> world \<Rightarrow> (exn + frame) \<times> world" where
  "cached_fetch_index_data_safe ticker w0 =
     (let w = emit (Call FetchIndex ticker) w0
      in case cache_lookup 3600 (clock w) (index_cache w) ticker of
           Some v \<Rightarrow> (Inr v, w)
         | None \<Rightarrow>
             (case fetch_index_data_safe ticker w of
                (Inl e, w1) \<Rightarrow> (Inl e, w1)
              | (Inr v, w1) \<Rightarrow>
                  (Inr v, w1\<lparr>index_cache := (index_cache w1)(ticker \<mapsto> (v, clock w1))\<rparr>)))"

definition cached_fetch_stock_data_safe :: "string \<Rightarrow> world \<Rightarrow> (exn + frame \<times> pydict) \<times> world" where
  "cached_fetch_stock_data_safe ticker w0 =
     (let w = emit (Call FetchStock ticker) w0
      in case cache_lookup 3600 (clock w) (stock_cache w) ticker of
           Some v \<Rightarrow> (Inr v, w)
         | None \<Rightarrow>
             (case fetch_stock_data_safe ticker w of
                (Inl e, w1) \<Rightarrow> (Inl e, w1)
              | (Inr v, w1) \<Rightarrow>
                  (Inr v, w1\<lparr>stock_cache := (stock_cache w1)(ticker \<mapsto> (v, clock w1))\<rparr>)))"

definition cached_metrics_table_safe :: "string \<Rightarrow> world \<Rightarrow> (exn + frame) \<times> world" where
  "cached_metrics_table_safe ticker w0 =
     (let w = emit (Call MetricsTable ticker) w0
      in case cache_lookup 3600 (clock w) (metrics_cache w) ticker of
           Some v \<Rightarrow> (Inr v, w)
         | None \<Rightarrow>
             (case metrics_table_safe ticker w of
                (Inl e, w1) \<Rightarrow> (Inl e, w1)
              | (Inr v, w1) \<Rightarrow>
                  (Inr v, w1\<lparr>metrics_cache := (metrics_cache w1)(ticker \<mapsto> (v, clock w1))\<rparr>)))"

section \<open>The dashboards\<close>

text \<open>
  What the user did before this run of the script: the dashboard chosen with the radio
  button, the entry chosen in each select box, and whether each retry button was clicked.
\<close>

record ui =
  dashboard_type :: string
  index_choice :: string
  retry_index_clicked :: bool
  stock_choice :: string
  retry_stock_clicked :: bool

text \<open>
  \<^verbatim>\<open>st.sidebar.selectbox(label, options)\<close> returns one of the options: the one the user
  chose, the first one otherwise.
\<close>

definition selectbox :: "string list \<Rightarrow> string \<Rightarrow> string" where
  "selectbox options choice =
     (if choice \<in> set options then choice else (case options of [] \<Rightarrow> [] | x # _ \<Rightarrow> x))"

definition indices :: "string list" where
  "indices = [''^DJI'', ''^GSPC'', ''^IXIC'', ''^RUT'']"

definition stocks :: "string list" where
  "stocks = [''AAPL'', ''MSFT'', ''GOOGL'', ''AMZN'', ''TSLA'']"

definition display_index_dashboard :: "ui \<Rightarrow> world \<Rightarrow> (exn + unit) \<times> world" where
  "display_index_dashboard u w =
     (let w1 = emit (Title ''Industry Indices Dashboard'') w;
          selected_index = selectbox indices (index_choice u);
          w2 = (if retry_index_clicked u then st_cache_data_clear w1 else w1)
      in case cached_fetch_index_data_safe selected_index w2 of
           (Inl e, w3) \<Rightarrow> (Inl e, w3)
         | (Inr index_data, w3) \<Rightarrow>
             if frame_empty index_data then (Inr (), st_warning ''No data available.'' w3)
             else
               (let w4 = emit (Write (''Data for '' @ selected_index)) w3
                in case select_columns index_data
                          [''Open'', ''High'', ''Low'', ''Close'', ''Volume'', ''SMA_20'', ''EMA_20'',
                           ''Volatility''] of
                     Inl e \<Rightarrow> (Inl e, w4)
                   | Inr table \<Rightarrow>
                       (let w5 = emit (Dataframe table) w4
                        in case select_columns index_data [''Close'', ''SMA_20'', ''EMA_20''] of
                             Inl e \<Rightarrow> (Inl e, w5)
                           | Inr chart \<Rightarrow> (Inr (), emit (LineChart (columns chart)) w5))))"

text \<open>The four \<^verbatim>\<open>st.metric\<close> calls of the stock dashboard.\<close>

definition show_metrics :: "pydict \<Rightarrow> world \<Rightarrow> world" where
  "show_metrics metrics w =
     emit (Metric ''Market Cap'' (dict_get metrics ''Market Cap'' (PyStr ''N/A'')))
       (emit (Metric ''Beta'' (dict_get metrics ''Beta'' (PyStr ''N/A'')))
         (emit (Metric ''Dividend Yield'' (dict_get metrics ''Dividend Yield'' (PyStr ''N/A'')))
           (emit (Metric ''PE Ratio'' (dict_get metrics ''PE Ratio'' (PyStr ''N/A''))) w)))"

definition display_stock_dashboard :: "ui \<Rightarrow> world \<Rightarrow> (exn + unit) \<times> world" where
  "display_stock_dashboard u w =
     (let w1 = emit (Title ''Stocks Dashboard'') w;
          selected_stock = selectbox stocks (stock_choice u);
          w2 = (if retry_stock_clicked u then st_cache_data_clear w1 else w1)
      in case cached_fetch_stock_data_safe selected_stock w2 of
           (Inl e, w3) \<Rightarrow> (Inl e, w3)
         | (Inr (stock_data, metrics), w3) \<Rightarrow>
             (case cached_metrics_table_safe selected_stock w3 of
                (Inl e, w4) \<Rightarrow> (Inl e, w4)
              | (Inr metr, w4) \<Rightarrow>
                  if frame_empty stock_data
                  then (Inr (), st_warning ''No stock data available.'' w4)
                  else
                    (let w5 = emit (Write (''Data for '' @ selected_stock)) w4
                     in case select_columns stock_data
                               [''Open'', ''High'', ''Low'', ''Close'', ''Volume''] of
                          Inl e \<Rightarrow> (Inl e, w5)
                        | Inr table \<Rightarrow>
                            (let w6 = emit (Dataframe table) w5;
                                 w7 = emit (Title (''Financials for '' @ selected_stock)) w6;
                                 w8 = emit (Dataframe metr) w7;
                                 w9 = show_metrics metrics w8
                             in case getitem stock_data ''Close'' of
                                  Inl e \<Rightarrow> (Inl e, w9)
                                | Inr close \<Rightarrow>
                                    (Inr (), emit (LineChart [(''Close'', close)]) w9)))))"

definition main :: "ui \<Rightarrow> world \<Rightarrow> (exn + unit) \<times> world" where
  "main u w =
     (let w1 = emit (SidebarTitle ''Dashboard Selection'') w
      in if dashboard_type u = ''Industry Indices''
         then display_index_dashboard u w1
         else display_stock_dashboard u w1)"

section \<open>Observing a run\<close>

text \<open>The delays, the provider queries and the calls among a list of events.\<close>

primrec sleeps :: "event list \<Rightarrow> nat list" where
  "sleeps [] = []"
| "sleeps (e # es) = (case e of Sleep s \<Rightarrow> s # sleeps es | _ \<Rightarrow> sleeps es)"

primrec requests :: "event list \<Rightarrow> (endpoint \<times> string) list" where
  "requests [] = []"
| "requests (e # es) = (case e of Request ep s \<Rightarrow> (ep, s) # requests es | _ \<Rightarrow> requests es)"

primrec calls :: "event list \<Rightarrow> (func \<times> string) list" where
  "calls [] = []"
| "calls (e # es) = (case e of Call f s \<Rightarrow> (f, s) # calls es | _ \<Rightarrow> calls es)"

text \<open>The events that happened between the world \<open>w\<close> and the later world \<open>w'\<close>.\<close>

definition events_since :: "world \<Rightarrow> world \<Rightarrow> event list" where
  "events_since w w' = drop (length (trace w)) (trace w')"

text \<open>
  What one attempt of each fetch function yields, as a function of what the provider
  answers to that attempt, and the queries the attempt makes.
\<close>

definition index_outcome :: "ticker_obj \<Rightarrow> exn + frame" where
  "index_outcome tk = and_then (history tk ''1y'') add_indicators"

definition stock_outcome :: "ticker_obj \<Rightarrow> exn + frame \<times> pydict" where
  "stock_outcome tk =
     and_then (history tk ''1y'') (\<lambda>hist.
       and_then (info tk) (\<lambda>i.
         and_then (stock_metrics i) (\<lambda>metrics. Inr (hist, metrics))))"

definition metrics_outcome :: "ticker_obj \<Rightarrow> exn + frame" where
  "metrics_outcome tk =
     and_then (financials tk) (\<lambda>fin.
       and_then (balance_sheet tk) (\<lambda>bs. financial_table fin bs))"

definition index_requests :: "string \<Rightarrow> ticker_obj \<Rightarrow> event list" where
  "index_requests t tk = [Request History t]"

definition stock_requests :: "string \<Rightarrow> ticker_obj \<Rightarrow> event list" where
  "stock_requests t tk =
     (case history tk ''1y'' of
        Inl e \<Rightarrow> [Request History t]
      | Inr h \<Rightarrow> [Request History t, Request Info t])"

definition metrics_requests :: "string \<Rightarrow> ticker_obj \<Rightarrow> event list" where
  "metrics_requests t tk =
     (case financials tk of
        Inl e \<Rightarrow> [Request Financials t]
      | Inr h \<Rightarrow> [Request Financials t, Request BalanceSheet t])"

text \<open>An attempt in general: it takes the next answer of the provider and records its queries.\<close>

definition attempt_of :: "(ticker_obj \<Rightarrow> exn + 'a) \<Rightarrow> (ticker_obj \<Rightarrow> event list) \<Rightarrow> string \<Rightarrow> world \<Rightarrow> (exn + 'a) \<times> world" where
  "attempt_of out reqs t w =
     (out (provider w 0 t),
      w\<lparr>provider := (\<lambda>n. provider w (Suc n)), trace := trace w @ reqs (provider w 0 t)\<rparr>)"

text \<open>The events of \<open>n\<close> failed attempts in a row: queries, warning, delay, each time.\<close>

definition failed_events :: "(ticker_obj \<Rightarrow> exn + 'a) \<Rightarrow> (ticker_obj \<Rightarrow> event list) \<Rightarrow> (exn \<Rightarrow> string) \<Rightarrow> (nat \<Rightarrow> ticker_obj) \<Rightarrow> nat \<Rightarrow> event list" where
  "failed_events out reqs msg p n =
     concat (map (\<lambda>k. reqs (p k) @ [Warning (msg (projl (out (p k)))), Sleep 60]) [0..<n])"

section \<open>Sample providers\<close>

definition down_ticker :: ticker_obj where
  "down_ticker =
     \<lparr>history = (\<lambda>period. Inl (Exn ProviderError ''Too Many Requests'')),
      info = Inl (Exn ProviderError ''Too Many Requests''),
      financials = Inl (Exn ProviderError ''Too Many Requests''),
      balance_sheet = Inl (Exn ProviderError ''Too Many Requests'')\<rparr>"

definition sample_history :: frame where
  "sample_history =
     \<lparr>index = [''2024-01-02''],
      columns = [(''Open'', [Some 99]), (''High'', [Some 101]), (''Low'', [Some 98]),
                 (''Close'', [Some 100]), (''Volume'', [Some 5000])]\<rparr>"

text \<open>The sample history with the three indicators that \<^verbatim>\<open>fetch_index_data_safe\<close> adds.\<close>

definition sample_indicators :: frame where
  "sample_indicators =
     \<lparr>index = [''2024-01-02''],
      columns = [(''Open'', [Some 99]), (''High'', [Some 101]), (''Low'', [Some 98]),
                 (''Close'', [Some 100]), (''Volume'', [Some 5000]),
                 (''SMA_20'', [None]), (''EMA_20'', [Some 100]), (''Volatility'', [None])]\<rparr>"

definition sample_info :: pydict where
  "sample_info = [(''dividendYield'', PyFloat (123 / 10000)), (''beta'', PyFloat (6 / 5))]"

definition sample_income :: frame where
  "sample_income =
     \<lparr>index = [''Total Revenue'', ''EBITDA'', ''Basic EPS'', ''Operating Income'',
               ''Operating Expense''],
      columns = [(''2023-12-31'', [Some 1000, Some 300, Some 6, Some 250, Some 500])]\<rparr>"

definition sample_balance :: frame where
  "sample_balance =
     \<lparr>index = [''Total Assets'', ''Total Debt''],
      columns = [(''2023-12-31'', [Some 5000, Some 1200])]\<rparr>"

definition up_ticker :: ticker_obj where
  "up_ticker =
     \<lparr>history = (\<lambda>period. Inr sample_history),
      info = Inr sample_info,
      financials = Inr sample_income,
      balance_sheet = Inr sample_balance\<rparr>"

text \<open>An income statement without EBITDA, and a provider that sends it on the first attempt.\<close>

definition partial_income :: frame where
  "partial_income =
     \<lparr>index = [''Total Revenue'', ''Basic EPS'', ''Operating Income'', ''Operating Expense''],
      columns = [(''2023-12-31'', [Some 1000, Some 6, Some 250, Some 500])]\<rparr>"

definition partial_ticker :: ticker_obj where
  "partial_ticker = up_ticker\<lparr>financials := Inr partial_income\<rparr>"

definition partial_once :: "nat \<Rightarrow> string \<Rightarrow> ticker_obj" where
  "partial_once n symbol = (if n = 0 then partial_ticker else up_ticker)"

text \<open>A provider that is always down, and one that fails the first attempt only.\<close>

definition always_down :: "nat \<Rightarrow> string \<Rightarrow> ticker_obj" where
  "always_down n symbol = down_ticker"

definition down_once :: "nat \<Rightarrow> string \<Rightarrow> ticker_obj" where
  "down_once n symbol = (if n = 0 then down_ticker else up_ticker)"

definition always_up :: "nat \<Rightarrow> string \<Rightarrow> ticker_obj" where
  "always_up n symbol = up_ticker"

text \<open>The world at the start: time 0, nothing on the screen, nothing cached.\<close>

definition fresh_world :: "(nat \<Rightarrow> string \<Rightarrow> ticker_obj) \<Rightarrow> world" where
  "fresh_world p =
     \<lparr>provider = p, clock = 0, trace = [],
      index_cache = Map.empty, stock_cache = Map.empty, metrics_cache = Map.empty\<rparr>"

text \<open>A world in the middle of a session: a later time, a screen in use, an entry cached.\<close>

definition used_world :: "(nat \<Rightarrow> string \<Rightarrow> ticker_obj) \<Rightarrow> world" where
  "used_world p =
     \<lparr>provider = p, clock = 86400, trace = [Title ''Stocks Dashboard''],
      index_cache = [''^DJI'' \<mapsto> (sample_history, 4000)], stock_cache = Map.empty,
      metrics_cache = Map.empty\<rparr>"

text \<open>A user who chose a symbol in each dashboard and clicked both retry buttons.\<close>

definition sample_ui :: ui where
  "sample_ui =
     \<lparr>dashboard_type = ''Stocks'', index_choice = ''^GSPC'', retry_index_clicked = True,
      stock_choice = ''MSFT'', retry_stock_clicked = True\<rparr>"

text \<open>A world in which results for other symbols and functions are cached and still valid.\<close>

definition cached_world :: "(nat \<Rightarrow> string \<Rightarrow> ticker_obj) \<Rightarrow> world" where
  "cached_world p =
     \<lparr>provider = p, clock = 5000, trace = [],
      index_cache = [''^DJI'' \<mapsto> (sample_history, 4000)],
      stock_cache = [''AAPL'' \<mapsto> ((sample_history, []), 4000)],
      metrics_cache = [''AAPL'' \<mapsto> (DataFrame, 4000)]\<rparr>"

section \<open>The retry loop\<close>

lemma sleeps_append [simp]: "sleeps (xs @ ys) = sleeps xs @ sleeps ys"
  by (induction xs) (auto split: event.splits)

lemma requests_append [simp]: "requests (xs @ ys) = requests xs @ requests ys"
  by (induction xs) (auto split: event.splits)

lemma calls_append [simp]: "calls (xs @ ys) = calls xs @ calls ys"
  by (induction xs) (auto split: event.splits)

lemma events_since_append: "trace w' = trace w @ evs \<Longrightarrow> events_since w w' = evs"
  by (simp add: events_since_def)

lemma index_attempt_eq:
  "index_attempt t = attempt_of index_outcome (index_requests t) t"
  by (rule ext)
     (simp add: index_attempt_def attempt_of_def index_outcome_def index_requests_def
        yf_Ticker_def emit_def)

lemma stock_attempt_eq:
  "stock_attempt t = attempt_of stock_outcome (stock_requests t) t"
  by (rule ext)
     (simp add: stock_attempt_def attempt_of_def stock_outcome_def stock_requests_def
        yf_Ticker_def emit_def and_then_def split: sum.splits)

lemma metrics_attempt_eq:
  "metrics_attempt t = attempt_of metrics_outcome (metrics_requests t) t"
  by (rule ext)
     (simp add: metrics_attempt_def attempt_of_def metrics_outcome_def metrics_requests_def
        yf_Ticker_def emit_def and_then_def split: sum.splits)

lemma failed_events_0 [simp]: "failed_events out reqs msg p 0 = []"
  by (simp add: failed_events_def)

lemma failed_events_Suc:
  "failed_events out reqs msg p (Suc n) =
     reqs (p 0) @ [Warning (msg (projl (out (p 0)))), Sleep 60] @
     failed_events out reqs msg (\<lambda>k. p (Suc k)) n"
proof -
  have "[0..<Suc n] = 0 # map Suc [0..<n]"
    by (simp add: upt_conv_Cons map_Suc_upt del: upt_Suc)
  then show ?thesis
    by (simp add: failed_events_def comp_def del: upt_Suc)
qed

lemma failed_events_snoc:
  "failed_events out reqs msg p (Suc n) =
     failed_events out reqs msg p n @ reqs (p n) @ [Warning (msg (projl (out (p n)))), Sleep 60]"
  by (simp add: failed_events_def)

lemma failed_events_ends_with_sleep:
  "\<exists>evs. failed_events out reqs msg p (Suc n) = evs @ [Sleep 60]"
proof -
  have "failed_events out reqs msg p (Suc n) =
      (failed_events out reqs msg p n @ reqs (p n) @ [Warning (msg (projl (out (p n))))]) @
      [Sleep 60]"
    by (simp add: failed_events_snoc)
  then show ?thesis by blast
qed

lemma exhausted_ends_with_sleep:
  assumes "trace w' = trace w @ failed_events out reqs msg p 5 @ [Error m]"
  shows "\<exists>evs. events_since w w' = evs @ [Sleep 60, Error m]"
proof -
  have five: "failed_events out reqs msg p 5 = failed_events out reqs msg p (Suc 4)"
    by simp
  from failed_events_ends_with_sleep[of out reqs msg p 4] obtain evs where
    e: "failed_events out reqs msg p (Suc 4) = evs @ [Sleep 60]" ..
  have "trace w' = trace w @ (evs @ [Sleep 60, Error m])"
    unfolding assms five e by simp
  then have "events_since w w' = evs @ [Sleep 60, Error m]"
    by (rule events_since_append)
  then show ?thesis ..
qed

text \<open>When the first \<open>n\<close> answers of the provider all fail, the loop runs out.\<close>

lemma retry_all_fail:
  "(\<forall>k<n. isl (out (provider w k t))) \<Longrightarrow>
   retry n (attempt_of out reqs t) msg w =
     (None, w\<lparr>provider := (\<lambda>j. provider w (j + n)), clock := clock w + 60 * n,
              trace := trace w @ failed_events out reqs msg (\<lambda>k. provider w k t) n\<rparr>)"
proof (induction n arbitrary: w)
  case 0
  show ?case by simp
next
  case (Suc n)
  from Suc.prems have "isl (out (provider w 0 t))" by simp
  then obtain e where e: "out (provider w 0 t) = Inl e"
    by (cases "out (provider w 0 t)") auto
  let ?w1 = "time_sleep 60 (st_warning (msg e) (snd (attempt_of out reqs t w)))"
  have p1: "provider ?w1 = (\<lambda>n. provider w (Suc n))"
    by (simp add: time_sleep_def st_warning_def emit_def attempt_of_def)
  have "\<forall>k<n. isl (out (provider ?w1 k t))"
    using Suc.prems by (simp add: p1)
  from Suc.IH[OF this] e show ?case
    by (simp add: attempt_of_def time_sleep_def st_warning_def emit_def failed_events_Suc)
qed

text \<open>When answer \<open>k\<close> is the first that succeeds, the loop returns its value.\<close>

lemma retry_first_success:
  "k < n \<Longrightarrow> (\<forall>j<k. isl (out (provider w j t))) \<Longrightarrow> out (provider w k t) = Inr v \<Longrightarrow>
   retry n (attempt_of out reqs t) msg w =
     (Some v, w\<lparr>provider := (\<lambda>j. provider w (j + Suc k)), clock := clock w + 60 * k,
                trace := trace w @ failed_events out reqs msg (\<lambda>k. provider w k t) k @
                         reqs (provider w k t)\<rparr>)"
proof (induction n arbitrary: w k)
  case 0
  then show ?case by simp
next
  case (Suc n)
  show ?case
  proof (cases k)
    case 0
    with Suc.prems show ?thesis by (simp add: attempt_of_def)
  next
    case (Suc k')
    from Suc.prems Suc have "isl (out (provider w 0 t))" by simp
    then obtain e where e: "out (provider w 0 t) = Inl e"
      by (cases "out (provider w 0 t)") auto
    let ?w1 = "time_sleep 60 (st_warning (msg e) (snd (attempt_of out reqs t w)))"
    have p1: "provider ?w1 = (\<lambda>n. provider w (Suc n))"
      by (simp add: time_sleep_def st_warning_def emit_def attempt_of_def)
    have a: "k' < n" using Suc.prems Suc by simp
    have b: "\<forall>j<k'. isl (out (provider ?w1 j t))" using Suc.prems Suc by (simp add: p1)
    have c: "out (provider ?w1 k' t) = Inr v" using Suc.prems Suc by (simp add: p1)
    from Suc.IH[OF a b c] e Suc show ?thesis
      by (simp add: attempt_of_def time_sleep_def st_warning_def emit_def failed_events_Suc)
  qed
qed

text \<open>Every sequence of answers is of one of these two kinds.\<close>

lemma first_success_or_all_fail:
  "(\<forall>k<(n::nat). isl (f k)) \<or> (\<exists>k<n. (\<forall>j<k. isl (f j)) \<and> \<not> isl (f k))"
proof (induction n)
  case 0
  show ?case by simp
next
  case (Suc n)
  from Suc.IH show ?case
  proof
    assume all: "\<forall>k<n. isl (f k)"
    show ?thesis
    proof (cases "isl (f n)")
      case True
      with all have "\<forall>k<Suc n. isl (f k)" by (simp add: less_Suc_eq)
      then show ?thesis ..
    next
      case False
      with all have "n < Suc n \<and> (\<forall>j<n. isl (f j)) \<and> \<not> isl (f n)" by simp
      then show ?thesis by blast
    qed
  next
    assume "\<exists>k<n. (\<forall>j<k. isl (f j)) \<and> \<not> isl (f k)"
    then obtain k where "k < n" "\<forall>j<k. isl (f j)" "\<not> isl (f k)" by blast
    then have "k < Suc n \<and> (\<forall>j<k. isl (f j)) \<and> \<not> isl (f k)" by simp
    then show ?thesis by blast
  qed
qed

lemma sleeps_failed_events:
  "(\<And>tk. sleeps (reqs tk) = []) \<Longrightarrow> sleeps (failed_events out reqs msg p n) = replicate n 60"
  by (induction n) (simp_all add: failed_events_snoc replicate_append_same)

lemma sleeps_index_requests [simp]: "sleeps (index_requests t tk) = []"
  by (simp add: index_requests_def)

lemma sleeps_stock_requests [simp]: "sleeps (stock_requests t tk) = []"
  by (simp add: stock_requests_def split: sum.splits)

lemma sleeps_metrics_requests [simp]: "sleeps (metrics_requests t tk) = []"
  by (simp add: metrics_requests_def split: sum.splits)

lemma fetch_index_exhausted:
  assumes "\<forall>k<5. isl (index_outcome (provider w k t))"
  shows "fetch_index_data_safe t w =
     (Inr DataFrame,
      w\<lparr>provider := (\<lambda>j. provider w (j + 5)), clock := clock w + 300,
        trace := trace w @
          failed_events index_outcome (index_requests t) (fetch_warning t) (\<lambda>k. provider w k t) 5 @
          [Error (''Could not fetch data for '' @ t @ '' after multiple attempts.'')]\<rparr>)"
  using retry_all_fail[of 5 index_outcome w t "index_requests t" "fetch_warning t", OF assms]
  by (simp add: fetch_index_data_safe_def index_attempt_eq st_error_def emit_def)

lemma fetch_index_success:
  assumes "k < 5" "\<forall>j<k. isl (index_outcome (provider w j t))"
    "index_outcome (provider w k t) = Inr v"
  shows "fetch_index_data_safe t w =
     (Inr v,
      w\<lparr>provider := (\<lambda>j. provider w (j + Suc k)), clock := clock w + 60 * k,
        trace := trace w @
          failed_events index_outcome (index_requests t) (fetch_warning t) (\<lambda>k. provider w k t) k @
          index_requests t (provider w k t)\<rparr>)"
  using retry_first_success[of k 5 index_outcome w t v "index_requests t" "fetch_warning t", OF assms]
  by (simp add: fetch_index_data_safe_def index_attempt_eq)

lemma fetch_stock_exhausted:
  assumes "\<forall>k<5. isl (stock_outcome (provider w k t))"
  shows "fetch_stock_data_safe t w =
     (Inr (DataFrame, []),
      w\<lparr>provider := (\<lambda>j. provider w (j + 5)), clock := clock w + 300,
        trace := trace w @
          failed_events stock_outcome (stock_requests t) (fetch_warning t) (\<lambda>k. provider w k t) 5 @
          [Error (''Could not fetch data for '' @ t @ '' after multiple attempts.'')]\<rparr>)"
  using retry_all_fail[of 5 stock_outcome w t "stock_requests t" "fetch_warning t", OF assms]
  by (simp add: fetch_stock_data_safe_def stock_attempt_eq st_error_def emit_def)

lemma fetch_stock_success:
  assumes "k < 5" "\<forall>j<k. isl (stock_outcome (provider w j t))"
    "stock_outcome (provider w k t) = Inr v"
  shows "fetch_stock_data_safe t w =
     (Inr v,
      w\<lparr>provider := (\<lambda>j. provider w (j + Suc k)), clock := clock w + 60 * k,
        trace := trace w @
          failed_events stock_outcome (stock_requests t) (fetch_warning t) (\<lambda>k. provider w k t) k @
          stock_requests t (provider w k t)\<rparr>)"
  using retry_first_success[of k 5 stock_outcome w t v "stock_requests t" "fetch_warning t", OF assms]
  by (simp add: fetch_stock_data_safe_def stock_attempt_eq)

lemma metrics_table_exhausted:
  assumes "\<forall>k<5. isl (metrics_outcome (provider w k t))"
  shows "metrics_table_safe t w =
     (Inr DataFrame,
      w\<lparr>provider := (\<lambda>j. provider w (j + 5)), clock := clock w + 300,
        trace := trace w @
          failed_events metrics_outcome (metrics_requests t) (financial_warning t) (\<lambda>k. provider w k t) 5 @
          [Error (''Could not fetch financial data for '' @ t @ '' after multiple attempts.'')]\<rparr>)"
  using retry_all_fail[of 5 metrics_outcome w t "metrics_requests t" "financial_warning t", OF assms]
  by (simp add: metrics_table_safe_def metrics_attempt_eq st_error_def emit_def)

lemma metrics_table_success:
  assumes "k < 5" "\<forall>j<k. isl (metrics_outcome (provider w j t))"
    "metrics_outcome (provider w k t) = Inr v"
  shows "metrics_table_safe t w =
     (Inr v,
      w\<lparr>provider := (\<lambda>j. provider w (j + Suc k)), clock := clock w + 60 * k,
        trace := trace w @
          failed_events metrics_outcome (metrics_requests t) (financial_warning t) (\<lambda>k. provider w k t) k @
          metrics_requests t (provider w k t)\<rparr>)"
  using retry_first_success[of k 5 metrics_outcome w t v "metrics_requests t" "financial_warning t", OF assms]
  by (simp add: metrics_table_safe_def metrics_attempt_eq)

lemma not_isl_Inr: "\<not> isl x \<Longrightarrow> \<exists>v. x = Inr v"
  by (cases x) auto

lemma retry_value_provider:
  assumes "provider w1 = provider w2"
  shows "fst (retry n (attempt_of out reqs t) msg w1) = fst (retry n (attempt_of out reqs t) msg w2)"
proof -
  from first_success_or_all_fail[of n "\<lambda>k. out (provider w1 k t)"] show ?thesis
  proof
    assume a: "\<forall>k<n. isl (out (provider w1 k t))"
    then have b: "\<forall>k<n. isl (out (provider w2 k t))" using assms by simp
    show ?thesis by (simp add: retry_all_fail[OF a] retry_all_fail[OF b])
  next
    assume "\<exists>k<n. (\<forall>j<k. isl (out (provider w1 j t))) \<and> \<not> isl (out (provider w1 k t))"
    then obtain k v where k: "k < n" "\<forall>j<k. isl (out (provider w1 j t))"
      "out (provider w1 k t) = Inr v"
      using not_isl_Inr by blast
    then have k': "k < n" "\<forall>j<k. isl (out (provider w2 j t))" "out (provider w2 k t) = Inr v"
      using assms by simp_all
    show ?thesis by (simp add: retry_first_success[OF k] retry_first_success[OF k'])
  qed
qed

lemma fetch_index_fst:
  "fst (fetch_index_data_safe t w) =
     Inr (case fst (retry 5 (index_attempt t) (fetch_warning t) w) of
            Some v \<Rightarrow> v | None \<Rightarrow> DataFrame)"
  by (simp add: fetch_index_data_safe_def split: prod.splits option.splits)

lemma fetch_stock_fst:
  "fst (fetch_stock_data_safe t w) =
     Inr (case fst (retry 5 (stock_attempt t) (fetch_warning t) w) of
            Some v \<Rightarrow> v | None \<Rightarrow> (DataFrame, []))"
  by (simp add: fetch_stock_data_safe_def split: prod.splits option.splits)

lemma metrics_table_fst:
  "fst (metrics_table_safe t w) =
     Inr (case fst (retry 5 (metrics_attempt t) (financial_warning t) w) of
            Some v \<Rightarrow> v | None \<Rightarrow> DataFrame)"
  by (simp add: metrics_table_safe_def split: prod.splits option.splits)

text \<open>What a fetch function returns: the first success, or the empty result.\<close>

lemma fetch_index_result:
  "\<exists>v. fst (fetch_index_data_safe t w) = Inr v \<and>
      ((\<exists>k<5. (\<forall>j<k. isl (index_outcome (provider w j t))) \<and>
               index_outcome (provider w k t) = Inr v) \<or>
       ((\<forall>k<5. isl (index_outcome (provider w k t))) \<and> v = DataFrame))"
proof -
  from first_success_or_all_fail[of 5 "\<lambda>k. index_outcome (provider w k t)"] show ?thesis
  proof
    assume a: "\<forall>k<5. isl (index_outcome (provider w k t))"
    then show ?thesis by (simp add: fetch_index_exhausted[OF a])
  next
    assume "\<exists>k<5. (\<forall>j<k. isl (index_outcome (provider w j t))) \<and>
                  \<not> isl (index_outcome (provider w k t))"
    then obtain k v where k: "k < 5" "\<forall>j<k. isl (index_outcome (provider w j t))"
      "index_outcome (provider w k t) = Inr v"
      using not_isl_Inr by blast
    from fetch_index_success[OF k] k show ?thesis by auto
  qed
qed

lemma fetch_stock_result:
  "\<exists>v. fst (fetch_stock_data_safe t w) = Inr v \<and>
      ((\<exists>k<5. (\<forall>j<k. isl (stock_outcome (provider w j t))) \<and>
               stock_outcome (provider w k t) = Inr v) \<or>
       ((\<forall>k<5. isl (stock_outcome (provider w k t))) \<and> v = (DataFrame, [])))"
proof -
  from first_success_or_all_fail[of 5 "\<lambda>k. stock_outcome (provider w k t)"] show ?thesis
  proof
    assume a: "\<forall>k<5. isl (stock_outcome (provider w k t))"
    then show ?thesis by (simp add: fetch_stock_exhausted[OF a])
  next
    assume "\<exists>k<5. (\<forall>j<k. isl (stock_outcome (provider w j t))) \<and>
                  \<not> isl (stock_outcome (provider w k t))"
    then obtain k v where k: "k < 5" "\<forall>j<k. isl (stock_outcome (provider w j t))"
      "stock_outcome (provider w k t) = Inr v"
      using not_isl_Inr by blast
    from fetch_stock_success[OF k] k show ?thesis by auto
  qed
qed

lemma metrics_table_result:
  "\<exists>v. fst (metrics_table_safe t w) = Inr v \<and>
      ((\<exists>k<5. (\<forall>j<k. isl (metrics_outcome (provider w j t))) \<and>
               metrics_outcome (provider w k t) = Inr v) \<or>
       ((\<forall>k<5. isl (metrics_outcome (provider w k t))) \<and> v = DataFrame))"
proof -
  from first_success_or_all_fail[of 5 "\<lambda>k. metrics_outcome (provider w k t)"] show ?thesis
  proof
    assume a: "\<forall>k<5. isl (metrics_outcome (provider w k t))"
    then show ?thesis by (simp add: metrics_table_exhausted[OF a])
  next
    assume "\<exists>k<5. (\<forall>j<k. isl (metrics_outcome (provider w j t))) \<and>
                  \<not> isl (metrics_outcome (provider w k t))"
    then obtain k v where k: "k < 5" "\<forall>j<k. isl (metrics_outcome (provider w j t))"
      "metrics_outcome (provider w k t) = Inr v"
      using not_isl_Inr by blast
    from metrics_table_success[OF k] k show ?thesis by auto
  qed
qed

section \<open>The indicators\<close>

lemma length_observed: "length (observed cs) \<le> length cs"
  by (induction cs) (auto split: option.splits)

lemma length_window_at: "length (window_at n xs i) \<le> Suc i"
  by (simp add: window_at_def)

lemma short_window: "Suc i < n \<Longrightarrow> \<not> n \<le> length (observed (window_at n xs i))"
  using length_observed[of "window_at n xs i"] length_window_at[of n xs i] by linarith

lemma length_rolling_mean [simp]: "length (rolling_mean n xs) = length xs"
  by (simp add: rolling_mean_def)

lemma length_rolling_std [simp]: "length (rolling_std n xs) = length xs"
  by (simp add: rolling_std_def)

lemma rolling_mean_short: "i < length xs \<Longrightarrow> Suc i < n \<Longrightarrow> rolling_mean n xs ! i = None"
  by (simp add: rolling_mean_def Let_def short_window)

lemma rolling_std_short: "i < length xs \<Longrightarrow> Suc i < n \<Longrightarrow> rolling_std n xs ! i = None"
  by (simp add: rolling_std_def Let_def short_window)

lemma length_ewm_from [simp]: "length (ewm_from a avg wt xs) = length xs"
  by (induction a avg wt xs rule: ewm_from.induct) (simp_all add: Let_def)

lemma ewm_from_started: "i < length xs \<Longrightarrow> ewm_from a (Some m) wt xs ! i \<noteq> None"
proof (induction xs arbitrary: i m wt)
  case Nil
  then show ?case by simp
next
  case (Cons x xs)
  show ?case
  proof (cases x)
    case None
    with Cons show ?thesis by (cases i) simp_all
  next
    case (Some y)
    with Cons show ?thesis by (cases i) (simp_all add: Let_def)
  qed
qed

lemma all_le_Suc_Cons:
  "(\<forall>j\<le>Suc i. (x # xs) ! j = None) = (x = None \<and> (\<forall>j\<le>i. xs ! j = None))"
proof
  assume l: "\<forall>j\<le>Suc i. (x # xs) ! j = None"
  from l have "(x # xs) ! 0 = None" by blast
  then have x: "x = None" by simp
  have "\<forall>j\<le>i. xs ! j = None"
  proof (intro allI impI)
    fix j assume "j \<le> i"
    then have "Suc j \<le> Suc i" by simp
    with l have "(x # xs) ! Suc j = None" by blast
    then show "xs ! j = None" by simp
  qed
  with x show "x = None \<and> (\<forall>j\<le>i. xs ! j = None)" ..
next
  assume r: "x = None \<and> (\<forall>j\<le>i. xs ! j = None)"
  show "\<forall>j\<le>Suc i. (x # xs) ! j = None"
  proof (intro allI impI)
    fix j assume j: "j \<le> Suc i"
    show "(x # xs) ! j = None"
    proof (cases j)
      case 0
      with r show ?thesis by simp
    next
      case (Suc j')
      with j have "j' \<le> i" by simp
      with r Suc show ?thesis by simp
    qed
  qed
qed

lemma ewm_from_unstarted:
  "i < length xs \<Longrightarrow> (ewm_from a None wt xs ! i = None) = (\<forall>j\<le>i. xs ! j = None)"
proof (induction xs arbitrary: i)
  case Nil
  then show ?case by simp
next
  case (Cons x xs)
  show ?case
  proof (cases x)
    case None
    show ?thesis
    proof (cases i)
      case 0
      with None show ?thesis by simp
    next
      case (Suc i')
      with Cons.prems have "i' < length xs" by simp
      from Cons.IH[OF this] None Suc show ?thesis
        by (simp add: all_le_Suc_Cons)
    qed
  next
    case (Some y)
    show ?thesis
    proof (cases i)
      case 0
      with Some show ?thesis by simp
    next
      case (Suc i')
      with Cons.prems have "i' < length xs" by simp
      from ewm_from_started[OF this, of a y wt] Some Suc
      have l: "ewm_from a None wt (x # xs) ! i \<noteq> None" by simp
      have r: "\<not> (\<forall>j\<le>i. (x # xs) ! j = None)"
      proof
        assume "\<forall>j\<le>i. (x # xs) ! j = None"
        then have "0 \<le> i \<longrightarrow> (x # xs) ! 0 = None" by (rule spec)
        with Some show False by simp
      qed
      show ?thesis
      proof
        assume "ewm_from a None wt (x # xs) ! i = None"
        with l show "\<forall>j\<le>i. (x # xs) ! j = None" by contradiction
      next
        assume "\<forall>j\<le>i. (x # xs) ! j = None"
        with r show "ewm_from a None wt (x # xs) ! i = None" by contradiction
      qed
    qed
  qed
qed

lemma length_ewm_mean [simp]: "length (ewm_mean s xs) = length xs"
  by (simp add: ewm_mean_def)

lemma ewm_mean_defined:
  "i < length xs \<Longrightarrow> (ewm_mean s xs ! i = None) = (\<forall>j\<le>i. xs ! j = None)"
  by (simp add: ewm_mean_def ewm_from_unstarted)

lemma map_of_set_column_same [simp]: "map_of (set_column name col cs) name = Some col"
  by (induction cs) auto

lemma map_of_set_column_other [simp]:
  "k \<noteq> name \<Longrightarrow> map_of (set_column name col cs) k = map_of cs k"
  by (induction cs) auto

lemma getitem_setitem_same [simp]: "getitem (setitem f name col) name = Inr col"
  by (simp add: getitem_def setitem_def)

lemma getitem_setitem_other [simp]:
  "k \<noteq> name \<Longrightarrow> getitem (setitem f name col) k = getitem f k"
  by (simp add: getitem_def setitem_def)

lemma add_indicators_Inr:
  assumes "add_indicators hist = Inr f"
  shows "\<exists>close. getitem hist ''Close'' = Inr close \<and>
     f = setitem (setitem (setitem hist ''SMA_20'' (rolling_mean 20 close))
                    ''EMA_20'' (ewm_mean 20 close)) ''Volatility'' (rolling_std 20 close)"
proof (cases "getitem hist ''Close''")
  case (Inl e)
  with assms show ?thesis by (simp add: add_indicators_def and_then_def)
next
  case (Inr close)
  with assms show ?thesis by (simp add: add_indicators_def and_then_def Let_def)
qed

lemma add_indicators_columns:
  assumes "add_indicators hist = Inr f"
  shows "\<exists>close. getitem f ''Close'' = Inr close \<and>
     getitem f ''SMA_20'' = Inr (rolling_mean 20 close) \<and>
     getitem f ''EMA_20'' = Inr (ewm_mean 20 close) \<and>
     getitem f ''Volatility'' = Inr (rolling_std 20 close)"
proof -
  from add_indicators_Inr[OF assms] obtain close where
    c: "getitem hist ''Close'' = Inr close" and
    f: "f = setitem (setitem (setitem hist ''SMA_20'' (rolling_mean 20 close))
                    ''EMA_20'' (ewm_mean 20 close)) ''Volatility'' (rolling_std 20 close)"
    by blast
  show ?thesis by (rule exI[of _ close]) (simp add: f c)
qed

lemma index_outcome_columns:
  assumes "index_outcome tk = Inr f"
  shows "\<exists>close. getitem f ''Close'' = Inr close \<and>
     getitem f ''SMA_20'' = Inr (rolling_mean 20 close) \<and>
     getitem f ''EMA_20'' = Inr (ewm_mean 20 close) \<and>
     getitem f ''Volatility'' = Inr (rolling_std 20 close)"
proof (cases "history tk ''1y''")
  case (Inl e)
  with assms show ?thesis by (simp add: index_outcome_def and_then_def)
next
  case (Inr hist)
  with assms have "add_indicators hist = Inr f" by (simp add: index_outcome_def and_then_def)
  then show ?thesis by (rule add_indicators_columns)
qed

lemma indicator_columns_early:
  assumes c: "getitem f ''Close'' = Inr close"
    "getitem f ''SMA_20'' = Inr (rolling_mean 20 close)"
    "getitem f ''EMA_20'' = Inr (ewm_mean 20 close)"
    "getitem f ''Volatility'' = Inr (rolling_std 20 close)"
  shows "\<exists>close sma ema vol.
        getitem f ''Close'' = Inr close \<and> getitem f ''SMA_20'' = Inr sma \<and>
        getitem f ''EMA_20'' = Inr ema \<and> getitem f ''Volatility'' = Inr vol \<and>
        length sma = length close \<and> length ema = length close \<and> length vol = length close \<and>
        (\<forall>i<19. i < length close \<longrightarrow> sma ! i = None \<and> vol ! i = None) \<and>
        (\<forall>i<length close. (ema ! i = None) = (\<forall>j\<le>i. close ! j = None))"
proof (intro exI conjI)
  show "getitem f ''Close'' = Inr close" by (rule c)
  show "getitem f ''SMA_20'' = Inr (rolling_mean 20 close)" by (rule c)
  show "getitem f ''EMA_20'' = Inr (ewm_mean 20 close)" by (rule c)
  show "getitem f ''Volatility'' = Inr (rolling_std 20 close)" by (rule c)
  show "length (rolling_mean 20 close) = length close" by simp
  show "length (ewm_mean 20 close) = length close" by simp
  show "length (rolling_std 20 close) = length close" by simp
  show "\<forall>i<19. i < length close \<longrightarrow>
            rolling_mean 20 close ! i = None \<and> rolling_std 20 close ! i = None"
    by (simp add: rolling_mean_short rolling_std_short)
  show "\<forall>i<length close. (ewm_mean 20 close ! i = None) = (\<forall>j\<le>i. close ! j = None)"
    using ewm_mean_defined by blast
qed

section \<open>The metrics of a stock, and the formatting\<close>






lemma dividend_yield_int:
  "map_of d ''dividendYield'' = Some (PyInt n) \<Longrightarrow> n \<noteq> 0 \<Longrightarrow>
   dividend_yield_entry d = Inr (PyStr (format_2f (of_int n * 100) @ ''%''))"
  by (simp add: dividend_yield_entry_def dict_get_def and_then_def)






















section \<open>The financial snapshot, line item by line item\<close>

lemma index_transpose [simp]: "index (transpose_frame f) = map fst (columns f)"
  by (simp add: transpose_frame_def)

lemma labels_transpose [simp]: "map fst (columns (transpose_frame f)) = index f"
  by (simp add: transpose_frame_def comp_def map_nth)

lemma select_columns_missing:
  assumes "l \<in> set labels" "l \<notin> set (map fst (columns f))"
  shows "\<exists>m. select_columns f labels = Inl (Exn KeyError m)"
proof -
  from assms have "l \<in> set (missing_labels f labels)" by (simp add: missing_labels_def)
  then have "missing_labels f labels \<noteq> []" by auto
  then show ?thesis by (simp add: select_columns_def)
qed

lemma select_columns_labels:
  assumes "select_columns f labels = Inr g"
  shows "set (map fst (columns g)) = set labels"
proof -
  from assms have m: "missing_labels f labels = []"
    by (simp add: select_columns_def split: if_splits)
  from assms m have g: "columns g = concat (map (\<lambda>l. filter (\<lambda>kc. fst kc = l) (columns f)) labels)"
    by (auto simp: select_columns_def)
  from m have all: "\<forall>l\<in>set labels. l \<in> set (map fst (columns f))"
    by (simp add: missing_labels_def filter_empty_conv)
  show ?thesis
  proof (intro set_eqI iffI)
    fix l assume "l \<in> set (map fst (columns g))"
    then show "l \<in> set labels" by (auto simp: g)
  next
    fix l assume l: "l \<in> set labels"
    with all have "l \<in> set (map fst (columns f))" by simp
    then obtain kc where "kc \<in> set (columns f)" "fst kc = l" by auto
    with l show "l \<in> set (map fst (columns g))" by (force simp: g)
  qed
qed

lemma join_labels:
  assumes "join left right = Inr out"
  shows "map fst (columns out) = map fst (columns left) @ map fst (columns right)"
proof -
  from assms have "out =
     (let labels = map fst (columns left) @ map fst (columns right);
          rs = join_rows left right
      in \<lparr>index = map fst rs,
          columns = map (\<lambda>j. (labels ! j, map (\<lambda>r. cell_at (snd r) j) rs))
                        [0..<length labels]\<rparr>)"
    by (simp add: join_def split: if_splits)
  then have "map fst (columns out) =
     map (\<lambda>j. (map fst (columns left) @ map fst (columns right)) ! j)
       [0..<length (map fst (columns left) @ map fst (columns right))]"
    by (simp add: Let_def comp_def)
  then show ?thesis by (simp only: map_nth)
qed

lemma financial_table_Inr:
  assumes "financial_table fin bs = Inr f"
  shows "set (index f) = set (balance_items @ income_items)"
proof (cases "select_columns (transpose_frame bs) balance_items")
  case (Inl e)
  with assms show ?thesis by (simp add: financial_table_def and_then_def)
next
  case o1: (Inr output1)
  show ?thesis
  proof (cases "select_columns (transpose_frame fin) income_items")
    case (Inl e)
    with assms o1 show ?thesis by (simp add: financial_table_def and_then_def)
  next
    case o2: (Inr output2)
    show ?thesis
    proof (cases "join output1 output2")
      case (Inl e)
      with assms o1 o2 show ?thesis by (simp add: financial_table_def and_then_def)
    next
      case j: (Inr joined)
      with assms o1 o2 have f: "f = transpose_frame joined"
        by (simp add: financial_table_def and_then_def)
      have "index f = map fst (columns output1) @ map fst (columns output2)"
        by (simp add: f join_labels[OF j])
      then have "set (index f) = set (map fst (columns output1)) \<union> set (map fst (columns output2))"
        by simp
      then show ?thesis
        by (simp only: select_columns_labels[OF o1] select_columns_labels[OF o2] set_append)
    qed
  qed
qed

lemma financial_table_missing:
  assumes "(\<exists>l\<in>set balance_items. l \<notin> set (index bs)) \<or>
           (\<exists>l\<in>set income_items. l \<notin> set (index fin))"
  shows "\<exists>m. financial_table fin bs = Inl (Exn KeyError m)"
proof (cases "\<exists>l\<in>set balance_items. l \<notin> set (index bs)")
  case True
  then obtain l where "l \<in> set balance_items" "l \<notin> set (map fst (columns (transpose_frame bs)))"
    by auto
  from select_columns_missing[OF this] obtain m where
    "select_columns (transpose_frame bs) balance_items = Inl (Exn KeyError m)" by blast
  then show ?thesis by (simp add: financial_table_def and_then_def)
next
  case False
  with assms obtain l where "l \<in> set income_items" "l \<notin> set (map fst (columns (transpose_frame fin)))"
    by auto
  from select_columns_missing[OF this] obtain m where
    m: "select_columns (transpose_frame fin) income_items = Inl (Exn KeyError m)" by blast
  show ?thesis
  proof (cases "select_columns (transpose_frame bs) balance_items")
    case (Inl e)
    from False have "missing_labels (transpose_frame bs) balance_items = []"
      by (simp add: missing_labels_def filter_empty_conv)
    with Inl show ?thesis by (simp add: select_columns_def)
  next
    case (Inr output1)
    with m show ?thesis by (simp add: financial_table_def and_then_def)
  qed
qed

lemma metrics_outcome_missing:
  assumes "financials tk = Inr fin" "balance_sheet tk = Inr bs"
    "(\<exists>l\<in>set balance_items. l \<notin> set (index bs)) \<or>
     (\<exists>l\<in>set income_items. l \<notin> set (index fin))"
  shows "\<exists>m. metrics_outcome tk = Inl (Exn KeyError m)"
  using financial_table_missing[OF assms(3)] assms(1,2)
  by (simp add: metrics_outcome_def and_then_def)

lemma metrics_outcome_Inr:
  assumes "metrics_outcome tk = Inr f"
  shows "set (index f) = set (balance_items @ income_items)"
proof (cases "financials tk")
  case (Inl e)
  with assms show ?thesis by (simp add: metrics_outcome_def and_then_def)
next
  case fin: (Inr fin)
  show ?thesis
  proof (cases "balance_sheet tk")
    case (Inl e)
    with assms fin show ?thesis by (simp add: metrics_outcome_def and_then_def)
  next
    case (Inr bs)
    with assms fin have "financial_table fin bs = Inr f"
      by (simp add: metrics_outcome_def and_then_def)
    then show ?thesis by (rule financial_table_Inr)
  qed
qed

lemma financial_table_sample:
  "financial_table sample_income sample_balance =
     Inr \<lparr>index = [''Total Assets'', ''Total Debt'', ''Total Revenue'', ''EBITDA'', ''Basic EPS'',
                   ''Operating Income'', ''Operating Expense''],
          columns = [(''2023-12-31'',
                      [Some 5000, Some 1200, Some 1000, Some 300, Some 6, Some 250, Some 500])]\<rparr>"
  by (simp add: financial_table_def sample_income_def sample_balance_def and_then_def
        select_columns_def missing_labels_def transpose_frame_def cell_at_def join_def
        join_rows_def frame_rows_def balance_items_def income_items_def Let_def)

lemma metrics_outcome_up:
  "metrics_outcome up_ticker =
     Inr \<lparr>index = [''Total Assets'', ''Total Debt'', ''Total Revenue'', ''EBITDA'', ''Basic EPS'',
                   ''Operating Income'', ''Operating Expense''],
          columns = [(''2023-12-31'',
                      [Some 5000, Some 1200, Some 1000, Some 300, Some 6, Some 250, Some 500])]\<rparr>"
  by (simp add: metrics_outcome_def up_ticker_def and_then_def financial_table_sample)

lemma metrics_outcome_partial:
  "metrics_outcome partial_ticker =
     Inl (Exn KeyError (repr_str ''EBITDA'' @ '' not in index''))"
proof -
  have m1: "missing_labels (transpose_frame sample_balance) balance_items = []"
    by (simp add: missing_labels_def sample_balance_def balance_items_def)
  have m2: "missing_labels (transpose_frame partial_income) income_items = [''EBITDA'']"
    by (simp add: missing_labels_def partial_income_def income_items_def)
  have "financial_table partial_income sample_balance =
     Inl (Exn KeyError (repr_str ''EBITDA'' @ '' not in index''))"
    by (simp add: financial_table_def select_columns_def m1 m2 and_then_def)
  then show ?thesis
    by (simp add: metrics_outcome_def partial_ticker_def up_ticker_def and_then_def)
qed

lemma metrics_table_partial_once:
  "metrics_table_safe t (fresh_world partial_once) =
     (Inr \<lparr>index = [''Total Assets'', ''Total Debt'', ''Total Revenue'', ''EBITDA'', ''Basic EPS'',
                    ''Operating Income'', ''Operating Expense''],
           columns = [(''2023-12-31'',
                       [Some 5000, Some 1200, Some 1000, Some 300, Some 6, Some 250, Some 500])]\<rparr>,
      \<lparr>provider = (\<lambda>j. partial_once (j + 2)), clock = 60,
        trace = [Request Financials t, Request BalanceSheet t,
                 Warning (financial_warning t (Exn KeyError (repr_str ''EBITDA'' @ '' not in index''))),
                 Sleep 60,
                 Request Financials t, Request BalanceSheet t],
        index_cache = Map.empty, stock_cache = Map.empty, metrics_cache = Map.empty\<rparr>)"
proof -
  have a: "(1::nat) < 5" by simp
  have b: "\<forall>j<1. isl (metrics_outcome (provider (fresh_world partial_once) j t))"
    by (simp add: fresh_world_def partial_once_def metrics_outcome_partial)
  have c: "metrics_outcome (provider (fresh_world partial_once) 1 t) =
     Inr \<lparr>index = [''Total Assets'', ''Total Debt'', ''Total Revenue'', ''EBITDA'', ''Basic EPS'',
                   ''Operating Income'', ''Operating Expense''],
          columns = [(''2023-12-31'',
                      [Some 5000, Some 1200, Some 1000, Some 300, Some 6, Some 250, Some 500])]\<rparr>"
    by (simp add: fresh_world_def partial_once_def metrics_outcome_up)
  have p0: "provider (fresh_world partial_once) 0 t = partial_ticker"
    by (simp add: fresh_world_def partial_once_def)
  have p1: "provider (fresh_world partial_once) (Suc 0) t = up_ticker"
    by (simp add: fresh_world_def partial_once_def)
  have r0: "metrics_requests t partial_ticker = [Request Financials t, Request BalanceSheet t]"
    by (simp add: metrics_requests_def partial_ticker_def)
  have r1: "metrics_requests t up_ticker = [Request Financials t, Request BalanceSheet t]"
    by (simp add: metrics_requests_def up_ticker_def)
  have fe: "failed_events metrics_outcome (metrics_requests t) (financial_warning t)
        (\<lambda>k. provider (fresh_world partial_once) k t) (Suc 0) =
      [Request Financials t, Request BalanceSheet t,
       Warning (financial_warning t (Exn KeyError (repr_str ''EBITDA'' @ '' not in index''))),
       Sleep 60]"
    by (simp add: failed_events_Suc p0 r0 metrics_outcome_partial)
  show ?thesis
    unfolding metrics_table_success[OF a b c]
    by (simp add: fe p1 r1) (simp add: fresh_world_def)
qed

section \<open>The cache and the dashboards\<close>

lemma calls_failed_events:
  "(\<And>tk. calls (reqs tk) = []) \<Longrightarrow> calls (failed_events out reqs msg p n) = []"
  by (induction n) (simp_all add: failed_events_snoc)

lemma requests_failed_events_Suc:
  "q \<in> set (requests (reqs (p 0))) \<Longrightarrow> q \<in> set (requests (failed_events out reqs msg p (Suc n)))"
  by (simp add: failed_events_Suc)

text \<open>What a run of the loop does to the world.\<close>

lemma retry_effect:
  assumes q: "\<And>tk. q \<in> set (requests (reqs tk))" and c: "\<And>tk. calls (reqs tk) = []"
    and n: "0 < n"
  shows "\<exists>r p c evs. retry n (attempt_of out reqs t) msg w =
            (r, w\<lparr>provider := p, clock := c, trace := trace w @ evs\<rparr>) \<and>
          q \<in> set (requests evs) \<and> calls evs = []"
proof -
  from n obtain m where m: "n = Suc m" by (cases n) auto
  from first_success_or_all_fail[of n "\<lambda>k. out (provider w k t)"] show ?thesis
  proof
    assume a: "\<forall>k<n. isl (out (provider w k t))"
    let ?evs = "failed_events out reqs msg (\<lambda>k. provider w k t) n"
    have 1: "q \<in> set (requests ?evs)"
      unfolding m by (rule requests_failed_events_Suc) (rule q)
    have 2: "calls ?evs = []" by (rule calls_failed_events) (rule c)
    from retry_all_fail[OF a, of reqs msg] 1 2 show ?thesis by blast
  next
    assume "\<exists>k<n. (\<forall>j<k. isl (out (provider w j t))) \<and> \<not> isl (out (provider w k t))"
    then obtain k v where k: "k < n" "\<forall>j<k. isl (out (provider w j t))"
      "out (provider w k t) = Inr v"
      using not_isl_Inr by blast
    let ?evs = "failed_events out reqs msg (\<lambda>k. provider w k t) k @ reqs (provider w k t)"
    have 1: "q \<in> set (requests ?evs)" using q[of "provider w k t"] by simp
    have 2: "calls ?evs = []" using c calls_failed_events[of reqs out msg] by simp
    from retry_first_success[OF k, of reqs msg] 1 2 show ?thesis by blast
  qed
qed

lemma fetch_index_effect:
  "\<exists>v p c evs. fetch_index_data_safe t w =
      (Inr v, w\<lparr>provider := p, clock := c, trace := trace w @ evs\<rparr>) \<and>
    (History, t) \<in> set (requests evs) \<and> calls evs = []"
proof -
  have "\<exists>r p c evs. retry 5 (attempt_of index_outcome (index_requests t) t) (fetch_warning t) w =
            (r, w\<lparr>provider := p, clock := c, trace := trace w @ evs\<rparr>) \<and>
          (History, t) \<in> set (requests evs) \<and> calls evs = []"
    by (rule retry_effect) (simp_all add: index_requests_def)
  then obtain r p c evs where
    r: "retry 5 (index_attempt t) (fetch_warning t) w =
            (r, w\<lparr>provider := p, clock := c, trace := trace w @ evs\<rparr>)"
    and e: "(History, t) \<in> set (requests evs)" "calls evs = []"
    unfolding index_attempt_eq by blast
  show ?thesis
  proof (cases r)
    case None
    with r have "fetch_index_data_safe t w =
      (Inr DataFrame, w\<lparr>provider := p, clock := c, trace := trace w @ (evs @
          [Error (''Could not fetch data for '' @ t @ '' after multiple attempts.'')])\<rparr>)"
      by (simp add: fetch_index_data_safe_def st_error_def emit_def)
    moreover have "(History, t) \<in> set (requests (evs @
          [Error (''Could not fetch data for '' @ t @ '' after multiple attempts.'')]))"
      using e by simp
    moreover have "calls (evs @
          [Error (''Could not fetch data for '' @ t @ '' after multiple attempts.'')]) = []"
      using e by simp
    ultimately show ?thesis by blast
  next
    case (Some v)
    with r have "fetch_index_data_safe t w =
      (Inr v, w\<lparr>provider := p, clock := c, trace := trace w @ evs\<rparr>)"
      by (simp add: fetch_index_data_safe_def)
    with e show ?thesis by blast
  qed
qed

lemma fetch_stock_effect:
  "\<exists>v p c evs. fetch_stock_data_safe t w =
      (Inr v, w\<lparr>provider := p, clock := c, trace := trace w @ evs\<rparr>) \<and>
    (History, t) \<in> set (requests evs) \<and> calls evs = []"
proof -
  have "\<exists>r p c evs. retry 5 (attempt_of stock_outcome (stock_requests t) t) (fetch_warning t) w =
            (r, w\<lparr>provider := p, clock := c, trace := trace w @ evs\<rparr>) \<and>
          (History, t) \<in> set (requests evs) \<and> calls evs = []"
    by (rule retry_effect) (simp_all add: stock_requests_def split: sum.splits)
  then obtain r p c evs where
    r: "retry 5 (stock_attempt t) (fetch_warning t) w =
            (r, w\<lparr>provider := p, clock := c, trace := trace w @ evs\<rparr>)"
    and e: "(History, t) \<in> set (requests evs)" "calls evs = []"
    unfolding stock_attempt_eq by blast
  show ?thesis
  proof (cases r)
    case None
    with r have "fetch_stock_data_safe t w =
      (Inr (DataFrame, []), w\<lparr>provider := p, clock := c, trace := trace w @ (evs @
          [Error (''Could not fetch data for '' @ t @ '' after multiple attempts.'')])\<rparr>)"
      by (simp add: fetch_stock_data_safe_def st_error_def emit_def)
    moreover have "(History, t) \<in> set (requests (evs @
          [Error (''Could not fetch data for '' @ t @ '' after multiple attempts.'')]))"
      using e by simp
    moreover have "calls (evs @
          [Error (''Could not fetch data for '' @ t @ '' after multiple attempts.'')]) = []"
      using e by simp
    ultimately show ?thesis by blast
  next
    case (Some v)
    with r have "fetch_stock_data_safe t w =
      (Inr v, w\<lparr>provider := p, clock := c, trace := trace w @ evs\<rparr>)"
      by (simp add: fetch_stock_data_safe_def)
    with e show ?thesis by blast
  qed
qed

lemma metrics_table_effect:
  "\<exists>v p c evs. metrics_table_safe t w =
      (Inr v, w\<lparr>provider := p, clock := c, trace := trace w @ evs\<rparr>) \<and>
    (Financials, t) \<in> set (requests evs) \<and> calls evs = []"
proof -
  have "\<exists>r p c evs. retry 5 (attempt_of metrics_outcome (metrics_requests t) t) (financial_warning t) w =
            (r, w\<lparr>provider := p, clock := c, trace := trace w @ evs\<rparr>) \<and>
          (Financials, t) \<in> set (requests evs) \<and> calls evs = []"
    by (rule retry_effect) (simp_all add: metrics_requests_def split: sum.splits)
  then obtain r p c evs where
    r: "retry 5 (metrics_attempt t) (financial_warning t) w =
            (r, w\<lparr>provider := p, clock := c, trace := trace w @ evs\<rparr>)"
    and e: "(Financials, t) \<in> set (requests evs)" "calls evs = []"
    unfolding metrics_attempt_eq by blast
  show ?thesis
  proof (cases r)
    case None
    with r have "metrics_table_safe t w =
      (Inr DataFrame, w\<lparr>provider := p, clock := c, trace := trace w @ (evs @
          [Error (''Could not fetch financial data for '' @ t @ '' after multiple attempts.'')])\<rparr>)"
      by (simp add: metrics_table_safe_def st_error_def emit_def)
    moreover have "(Financials, t) \<in> set (requests (evs @
          [Error (''Could not fetch financial data for '' @ t @ '' after multiple attempts.'')]))"
      using e by simp
    moreover have "calls (evs @
          [Error (''Could not fetch financial data for '' @ t @ '' after multiple attempts.'')]) = []"
      using e by simp
    ultimately show ?thesis by blast
  next
    case (Some v)
    with r have "metrics_table_safe t w =
      (Inr v, w\<lparr>provider := p, clock := c, trace := trace w @ evs\<rparr>)"
      by (simp add: metrics_table_safe_def)
    with e show ?thesis by blast
  qed
qed

lemma cache_lookup_Some:
  "cache_lookup ttl now c k = Some v \<Longrightarrow> \<exists>created. c k = Some (v, created) \<and> now \<le> created + ttl"
  by (auto simp: cache_lookup_def split: option.splits if_splits)

lemma cache_lookup_valid:
  "c k = Some (v, created) \<Longrightarrow> now \<le> created + ttl \<Longrightarrow> cache_lookup ttl now c k = Some v"
  by (simp add: cache_lookup_def)

lemma cache_lookup_empty [simp]: "cache_lookup ttl now Map.empty k = None"
  by (simp add: cache_lookup_def)

lemma cached_index_hit:
  "cache_lookup 3600 (clock w) (index_cache w) t = Some v \<Longrightarrow>
   cached_fetch_index_data_safe t w = (Inr v, emit (Call FetchIndex t) w)"
  by (simp add: cached_fetch_index_data_safe_def Let_def emit_def)

lemma cached_index_miss:
  assumes "cache_lookup 3600 (clock w) (index_cache w) t = None"
  shows "\<exists>v p c evs. cached_fetch_index_data_safe t w =
      (Inr v, w\<lparr>provider := p, clock := c, trace := trace w @ Call FetchIndex t # evs,
                 index_cache := (index_cache w)(t \<mapsto> (v, c))\<rparr>) \<and>
    (History, t) \<in> set (requests evs) \<and> calls evs = []"
proof -
  let ?w = "emit (Call FetchIndex t) w"
  from fetch_index_effect[of t ?w] obtain v p c evs where
    f: "fetch_index_data_safe t ?w = (Inr v, ?w\<lparr>provider := p, clock := c, trace := trace ?w @ evs\<rparr>)"
    and e: "(History, t) \<in> set (requests evs)" "calls evs = []"
    by blast
  from assms f have "cached_fetch_index_data_safe t w =
      (Inr v, w\<lparr>provider := p, clock := c, trace := trace w @ Call FetchIndex t # evs,
                 index_cache := (index_cache w)(t \<mapsto> (v, c))\<rparr>)"
    by (simp add: cached_fetch_index_data_safe_def Let_def emit_def)
  with e show ?thesis by blast
qed

lemma cached_index_effect:
  "\<exists>v w'. cached_fetch_index_data_safe t w = (Inr v, w') \<and>
     (\<exists>created. index_cache w' t = Some (v, created)) \<and>
     (\<forall>s. s \<noteq> t \<longrightarrow> index_cache w' s = index_cache w s) \<and>
     stock_cache w' = stock_cache w \<and> metrics_cache w' = metrics_cache w \<and>
     (\<exists>evs. trace w' = trace w @ Call FetchIndex t # evs \<and> calls evs = [])"
proof (cases "cache_lookup 3600 (clock w) (index_cache w) t")
  case None
  from cached_index_miss[OF None] obtain v p c evs where
    m: "cached_fetch_index_data_safe t w =
      (Inr v, w\<lparr>provider := p, clock := c, trace := trace w @ Call FetchIndex t # evs,
                 index_cache := (index_cache w)(t \<mapsto> (v, c))\<rparr>)"
    and e: "calls evs = []" by blast
  let ?w' = "w\<lparr>provider := p, clock := c, trace := trace w @ Call FetchIndex t # evs,
                 index_cache := (index_cache w)(t \<mapsto> (v, c))\<rparr>"
  have 1: "\<exists>created. index_cache ?w' t = Some (v, created)" by simp
  have 2: "\<forall>s. s \<noteq> t \<longrightarrow> index_cache ?w' s = index_cache w s" by simp
  have 3: "stock_cache ?w' = stock_cache w" "metrics_cache ?w' = metrics_cache w" by simp_all
  have 4: "\<exists>evs. trace ?w' = trace w @ Call FetchIndex t # evs \<and> calls evs = []"
    using e by simp
  from m 1 2 3 4 show ?thesis by blast
next
  case (Some v)
  from cache_lookup_Some[OF Some] obtain created where
    c: "index_cache w t = Some (v, created)" by blast
  let ?w' = "emit (Call FetchIndex t) w"
  have 1: "\<exists>created. index_cache ?w' t = Some (v, created)" using c by (simp add: emit_def)
  have 2: "\<forall>s. s \<noteq> t \<longrightarrow> index_cache ?w' s = index_cache w s" by (simp add: emit_def)
  have 3: "stock_cache ?w' = stock_cache w" "metrics_cache ?w' = metrics_cache w" by (simp_all add: emit_def)
  have 4: "\<exists>evs. trace ?w' = trace w @ Call FetchIndex t # evs \<and> calls evs = []"
    by (simp add: emit_def)
  from cached_index_hit[OF Some] 1 2 3 4 show ?thesis by blast
qed

lemma cached_index_again:
  assumes 1: "cached_fetch_index_data_safe t w = (r1, w1)" and 2: "index_cache w2 = index_cache w1"
    and 3: "\<exists>v created. index_cache w1 t = Some (v, created) \<and> clock w2 \<le> created + 3600"
  shows "cached_fetch_index_data_safe t w2 = (r1, emit (Call FetchIndex t) w2)"
proof -
  from cached_index_effect[of t w] 1 obtain v created where
    r: "r1 = Inr v" and c: "index_cache w1 t = Some (v, created)" by auto
  from 3 c have "clock w2 \<le> created + 3600" by auto
  with c 2 have "cache_lookup 3600 (clock w2) (index_cache w2) t = Some v"
    by (simp add: cache_lookup_valid)
  from cached_index_hit[OF this] r show ?thesis by simp
qed

lemma cached_stock_hit:
  "cache_lookup 3600 (clock w) (stock_cache w) t = Some v \<Longrightarrow>
   cached_fetch_stock_data_safe t w = (Inr v, emit (Call FetchStock t) w)"
  by (simp add: cached_fetch_stock_data_safe_def Let_def emit_def)

lemma cached_stock_miss:
  assumes "cache_lookup 3600 (clock w) (stock_cache w) t = None"
  shows "\<exists>v p c evs. cached_fetch_stock_data_safe t w =
      (Inr v, w\<lparr>provider := p, clock := c, trace := trace w @ Call FetchStock t # evs,
                 stock_cache := (stock_cache w)(t \<mapsto> (v, c))\<rparr>) \<and>
    (History, t) \<in> set (requests evs) \<and> calls evs = []"
proof -
  let ?w = "emit (Call FetchStock t) w"
  from fetch_stock_effect[of t ?w] obtain v p c evs where
    f: "fetch_stock_data_safe t ?w = (Inr v, ?w\<lparr>provider := p, clock := c, trace := trace ?w @ evs\<rparr>)"
    and e: "(History, t) \<in> set (requests evs)" "calls evs = []"
    by blast
  from assms f have "cached_fetch_stock_data_safe t w =
      (Inr v, w\<lparr>provider := p, clock := c, trace := trace w @ Call FetchStock t # evs,
                 stock_cache := (stock_cache w)(t \<mapsto> (v, c))\<rparr>)"
    by (simp add: cached_fetch_stock_data_safe_def Let_def emit_def)
  with e show ?thesis by blast
qed

lemma cached_stock_effect:
  "\<exists>v w'. cached_fetch_stock_data_safe t w = (Inr v, w') \<and>
     (\<exists>created. stock_cache w' t = Some (v, created)) \<and>
     (\<forall>s. s \<noteq> t \<longrightarrow> stock_cache w' s = stock_cache w s) \<and>
     index_cache w' = index_cache w \<and> metrics_cache w' = metrics_cache w \<and>
     (\<exists>evs. trace w' = trace w @ Call FetchStock t # evs \<and> calls evs = [])"
proof (cases "cache_lookup 3600 (clock w) (stock_cache w) t")
  case None
  from cached_stock_miss[OF None] obtain v p c evs where
    m: "cached_fetch_stock_data_safe t w =
      (Inr v, w\<lparr>provider := p, clock := c, trace := trace w @ Call FetchStock t # evs,
                 stock_cache := (stock_cache w)(t \<mapsto> (v, c))\<rparr>)"
    and e: "calls evs = []" by blast
  let ?w' = "w\<lparr>provider := p, clock := c, trace := trace w @ Call FetchStock t # evs,
                 stock_cache := (stock_cache w)(t \<mapsto> (v, c))\<rparr>"
  have 1: "\<exists>created. stock_cache ?w' t = Some (v, created)" by simp
  have 2: "\<forall>s. s \<noteq> t \<longrightarrow> stock_cache ?w' s = stock_cache w s" by simp
  have 3: "index_cache ?w' = index_cache w" "metrics_cache ?w' = metrics_cache w" by simp_all
  have 4: "\<exists>evs. trace ?w' = trace w @ Call FetchStock t # evs \<and> calls evs = []"
    using e by simp
  from m 1 2 3 4 show ?thesis by blast
next
  case (Some v)
  from cache_lookup_Some[OF Some] obtain created where
    c: "stock_cache w t = Some (v, created)" by blast
  let ?w' = "emit (Call FetchStock t) w"
  have 1: "\<exists>created. stock_cache ?w' t = Some (v, created)" using c by (simp add: emit_def)
  have 2: "\<forall>s. s \<noteq> t \<longrightarrow> stock_cache ?w' s = stock_cache w s" by (simp add: emit_def)
  have 3: "index_cache ?w' = index_cache w" "metrics_cache ?w' = metrics_cache w" by (simp_all add: emit_def)
  have 4: "\<exists>evs. trace ?w' = trace w @ Call FetchStock t # evs \<and> calls evs = []"
    by (simp add: emit_def)
  from cached_stock_hit[OF Some] 1 2 3 4 show ?thesis by blast
qed

lemma cached_stock_again:
  assumes 1: "cached_fetch_stock_data_safe t w = (r1, w1)" and 2: "stock_cache w2 = stock_cache w1"
    and 3: "\<exists>v created. stock_cache w1 t = Some (v, created) \<and> clock w2 \<le> created + 3600"
  shows "cached_fetch_stock_data_safe t w2 = (r1, emit (Call FetchStock t) w2)"
proof -
  from cached_stock_effect[of t w] 1 obtain v created where
    r: "r1 = Inr v" and c: "stock_cache w1 t = Some (v, created)" by auto
  from 3 c have "clock w2 \<le> created + 3600" by auto
  with c 2 have "cache_lookup 3600 (clock w2) (stock_cache w2) t = Some v"
    by (simp add: cache_lookup_valid)
  from cached_stock_hit[OF this] r show ?thesis by simp
qed

lemma cached_metrics_hit:
  "cache_lookup 3600 (clock w) (metrics_cache w) t = Some v \<Longrightarrow>
   cached_metrics_table_safe t w = (Inr v, emit (Call MetricsTable t) w)"
  by (simp add: cached_metrics_table_safe_def Let_def emit_def)

lemma cached_metrics_miss:
  assumes "cache_lookup 3600 (clock w) (metrics_cache w) t = None"
  shows "\<exists>v p c evs. cached_metrics_table_safe t w =
      (Inr v, w\<lparr>provider := p, clock := c, trace := trace w @ Call MetricsTable t # evs,
                 metrics_cache := (metrics_cache w)(t \<mapsto> (v, c))\<rparr>) \<and>
    (Financials, t) \<in> set (requests evs) \<and> calls evs = []"
proof -
  let ?w = "emit (Call MetricsTable t) w"
  from metrics_table_effect[of t ?w] obtain v p c evs where
    f: "metrics_table_safe t ?w = (Inr v, ?w\<lparr>provider := p, clock := c, trace := trace ?w @ evs\<rparr>)"
    and e: "(Financials, t) \<in> set (requests evs)" "calls evs = []"
    by blast
  from assms f have "cached_metrics_table_safe t w =
      (Inr v, w\<lparr>provider := p, clock := c, trace := trace w @ Call MetricsTable t # evs,
                 metrics_cache := (metrics_cache w)(t \<mapsto> (v, c))\<rparr>)"
    by (simp add: cached_metrics_table_safe_def Let_def emit_def)
  with e show ?thesis by blast
qed

lemma cached_metrics_effect:
  "\<exists>v w'. cached_metrics_table_safe t w = (Inr v, w') \<and>
     (\<exists>created. metrics_cache w' t = Some (v, created)) \<and>
     (\<forall>s. s \<noteq> t \<longrightarrow> metrics_cache w' s = metrics_cache w s) \<and>
     index_cache w' = index_cache w \<and> stock_cache w' = stock_cache w \<and>
     (\<exists>evs. trace w' = trace w @ Call MetricsTable t # evs \<and> calls evs = [])"
proof (cases "cache_lookup 3600 (clock w) (metrics_cache w) t")
  case None
  from cached_metrics_miss[OF None] obtain v p c evs where
    m: "cached_metrics_table_safe t w =
      (Inr v, w\<lparr>provider := p, clock := c, trace := trace w @ Call MetricsTable t # evs,
                 metrics_cache := (metrics_cache w)(t \<mapsto> (v, c))\<rparr>)"
    and e: "calls evs = []" by blast
  let ?w' = "w\<lparr>provider := p, clock := c, trace := trace w @ Call MetricsTable t # evs,
                 metrics_cache := (metrics_cache w)(t \<mapsto> (v, c))\<rparr>"
  have 1: "\<exists>created. metrics_cache ?w' t = Some (v, created)" by simp
  have 2: "\<forall>s. s \<noteq> t \<longrightarrow> metrics_cache ?w' s = metrics_cache w s" by simp
  have 3: "index_cache ?w' = index_cache w" "stock_cache ?w' = stock_cache w" by simp_all
  have 4: "\<exists>evs. trace ?w' = trace w @ Call MetricsTable t # evs \<and> calls evs = []"
    using e by simp
  from m 1 2 3 4 show ?thesis by blast
next
  case (Some v)
  from cache_lookup_Some[OF Some] obtain created where
    c: "metrics_cache w t = Some (v, created)" by blast
  let ?w' = "emit (Call MetricsTable t) w"
  have 1: "\<exists>created. metrics_cache ?w' t = Some (v, created)" using c by (simp add: emit_def)
  have 2: "\<forall>s. s \<noteq> t \<longrightarrow> metrics_cache ?w' s = metrics_cache w s" by (simp add: emit_def)
  have 3: "index_cache ?w' = index_cache w" "stock_cache ?w' = stock_cache w" by (simp_all add: emit_def)
  have 4: "\<exists>evs. trace ?w' = trace w @ Call MetricsTable t # evs \<and> calls evs = []"
    by (simp add: emit_def)
  from cached_metrics_hit[OF Some] 1 2 3 4 show ?thesis by blast
qed

lemma cached_metrics_again:
  assumes 1: "cached_metrics_table_safe t w = (r1, w1)" and 2: "metrics_cache w2 = metrics_cache w1"
    and 3: "\<exists>v created. metrics_cache w1 t = Some (v, created) \<and> clock w2 \<le> created + 3600"
  shows "cached_metrics_table_safe t w2 = (r1, emit (Call MetricsTable t) w2)"
proof -
  from cached_metrics_effect[of t w] 1 obtain v created where
    r: "r1 = Inr v" and c: "metrics_cache w1 t = Some (v, created)" by auto
  from 3 c have "clock w2 \<le> created + 3600" by auto
  with c 2 have "cache_lookup 3600 (clock w2) (metrics_cache w2) t = Some v"
    by (simp add: cache_lookup_valid)
  from cached_metrics_hit[OF this] r show ?thesis by simp
qed

lemma index_outcome_down:
  "index_outcome down_ticker = Inl (Exn ProviderError ''Too Many Requests'')"
  by (simp add: index_outcome_def down_ticker_def and_then_def)

lemma index_outcome_up: "index_outcome up_ticker = Inr sample_indicators"
  by (simp add: index_outcome_def up_ticker_def sample_history_def sample_indicators_def
        and_then_def add_indicators_def getitem_def setitem_def rolling_mean_def
        rolling_std_def ewm_mean_def window_at_def Let_def)

lemma fetch_index_down_once:
  "fetch_index_data_safe t (w\<lparr>provider := down_once\<rparr>) =
     (Inr sample_indicators,
      w\<lparr>provider := (\<lambda>j. down_once (j + 2)), clock := clock w + 60,
        trace := trace w @
          [Request History t,
           Warning (fetch_warning t (Exn ProviderError ''Too Many Requests'')),
           Sleep 60,
           Request History t]\<rparr>)"
proof -
  let ?w = "w\<lparr>provider := down_once\<rparr>"
  have a: "(1::nat) < 5" by simp
  have b: "\<forall>j<1. isl (index_outcome (provider ?w j t))"
    by (simp add: down_once_def index_outcome_down)
  have c: "index_outcome (provider ?w 1 t) = Inr sample_indicators"
    by (simp add: down_once_def index_outcome_up)
  have fe: "failed_events index_outcome (index_requests t) (fetch_warning t)
        (\<lambda>k. down_once k t) (Suc 0) =
      [Request History t,
       Warning (fetch_warning t (Exn ProviderError ''Too Many Requests'')),
       Sleep 60]"
    by (simp add: failed_events_Suc down_once_def index_requests_def index_outcome_down)
  show ?thesis
    unfolding fetch_index_success[OF a b c]
    by (simp add: fe index_requests_def)
qed

lemma cached_index_down_once:
  "cached_fetch_index_data_safe t (fresh_world down_once) =
     (Inr sample_indicators,
      \<lparr>provider = (\<lambda>j. down_once (j + 2)), clock = 60,
       trace = [Call FetchIndex t, Request History t,
                Warning (fetch_warning t (Exn ProviderError ''Too Many Requests'')),
                Sleep 60,
                Request History t],
       index_cache = [t \<mapsto> (sample_indicators, 60)],
       stock_cache = Map.empty, metrics_cache = Map.empty\<rparr>)"
proof -
  have e: "emit (Call FetchIndex t) (fresh_world down_once) =
     \<lparr>provider = down_once, clock = 0, trace = [Call FetchIndex t],
      index_cache = Map.empty, stock_cache = Map.empty, metrics_cache = Map.empty\<rparr>
       \<lparr>provider := down_once\<rparr>"
    by (simp add: emit_def fresh_world_def)
  show ?thesis
    unfolding cached_fetch_index_data_safe_def Let_def e fetch_index_down_once
    by (simp add: fresh_world_def)
qed

lemma display_index_after:
  assumes "cached_fetch_index_data_safe (selectbox indices (index_choice u))
             (if retry_index_clicked u
              then st_cache_data_clear (emit (Title ''Industry Indices Dashboard'') w)
              else emit (Title ''Industry Indices Dashboard'') w) = (Inr v, w3)"
  shows "\<exists>evs. snd (display_index_dashboard u w) = w3\<lparr>trace := trace w3 @ evs\<rparr> \<and>
           calls evs = [] \<and> requests evs = [] \<and> sleeps evs = []"
proof -
  let ?sel = "selectbox indices (index_choice u)"
  have d: "display_index_dashboard u w =
     (if frame_empty v then (Inr (), st_warning ''No data available.'' w3)
      else
        (let w4 = emit (Write (''Data for '' @ ?sel)) w3
         in case select_columns v
                   [''Open'', ''High'', ''Low'', ''Close'', ''Volume'', ''SMA_20'', ''EMA_20'',
                    ''Volatility''] of
              Inl e \<Rightarrow> (Inl e, w4)
            | Inr table \<Rightarrow>
                (let w5 = emit (Dataframe table) w4
                 in case select_columns v [''Close'', ''SMA_20'', ''EMA_20''] of
                      Inl e \<Rightarrow> (Inl e, w5)
                    | Inr chart \<Rightarrow> (Inr (), emit (LineChart (columns chart)) w5))))"
    unfolding display_index_dashboard_def Let_def assms by simp
  show ?thesis
  proof (cases "frame_empty v")
    case True
    then have "snd (display_index_dashboard u w) = w3\<lparr>trace := trace w3 @ [Warning ''No data available.'']\<rparr>"
      by (simp add: d st_warning_def emit_def)
    then show ?thesis by (intro exI[of _ "[Warning ''No data available.'']"]) simp
  next
    case False
    show ?thesis
    proof (cases "select_columns v [''Open'', ''High'', ''Low'', ''Close'', ''Volume'', ''SMA_20'',
                    ''EMA_20'', ''Volatility'']")
      case (Inl e)
      with False have "snd (display_index_dashboard u w) =
          w3\<lparr>trace := trace w3 @ [Write (''Data for '' @ ?sel)]\<rparr>"
        by (simp add: d emit_def)
      then show ?thesis by (intro exI[of _ "[Write (''Data for '' @ ?sel)]"]) simp
    next
      case t: (Inr tbl)
      show ?thesis
      proof (cases "select_columns v [''Close'', ''SMA_20'', ''EMA_20'']")
        case (Inl e)
        with False t have "snd (display_index_dashboard u w) =
            w3\<lparr>trace := trace w3 @ [Write (''Data for '' @ ?sel), Dataframe tbl]\<rparr>"
          by (simp add: d emit_def)
        then show ?thesis
          by (intro exI[of _ "[Write (''Data for '' @ ?sel), Dataframe tbl]"]) simp
      next
        case (Inr ch)
        with False t have "snd (display_index_dashboard u w) =
            w3\<lparr>trace := trace w3 @ [Write (''Data for '' @ ?sel), Dataframe tbl,
                                      LineChart (columns ch)]\<rparr>"
          by (simp add: d emit_def)
        then show ?thesis
          by (intro exI[of _ "[Write (''Data for '' @ ?sel), Dataframe tbl, LineChart (columns ch)]"])
             simp
      qed
    qed
  qed
qed

lemma calls_show_metrics:
  "\<exists>evs. show_metrics m w = w\<lparr>trace := trace w @ evs\<rparr> \<and>
     calls evs = [] \<and> requests evs = [] \<and> sleeps evs = []"
  by (rule exI[of _ "[Metric ''PE Ratio'' (dict_get m ''PE Ratio'' (PyStr ''N/A'')),
        Metric ''Dividend Yield'' (dict_get m ''Dividend Yield'' (PyStr ''N/A'')),
        Metric ''Beta'' (dict_get m ''Beta'' (PyStr ''N/A'')),
        Metric ''Market Cap'' (dict_get m ''Market Cap'' (PyStr ''N/A''))]"])
     (simp add: show_metrics_def emit_def)

lemma display_stock_after:
  assumes a1: "cached_fetch_stock_data_safe (selectbox stocks (stock_choice u))
             (if retry_stock_clicked u
              then st_cache_data_clear (emit (Title ''Stocks Dashboard'') w)
              else emit (Title ''Stocks Dashboard'') w) = (Inr (sd, m), w3)"
    and a2: "cached_metrics_table_safe (selectbox stocks (stock_choice u)) w3 = (Inr metr, w4)"
  shows "\<exists>r evs. display_stock_dashboard u w = (r, w4\<lparr>trace := trace w4 @ evs\<rparr>) \<and>
           calls evs = [] \<and> requests evs = [] \<and> sleeps evs = [] \<and>
           (frame_empty sd \<longrightarrow> r = Inr () \<and> evs = [Warning ''No stock data available.''])"
proof -
  let ?sel = "selectbox stocks (stock_choice u)"
  have d: "display_stock_dashboard u w =
     (if frame_empty sd
      then (Inr (), st_warning ''No stock data available.'' w4)
      else
        (let w5 = emit (Write (''Data for '' @ ?sel)) w4
         in case select_columns sd [''Open'', ''High'', ''Low'', ''Close'', ''Volume''] of
              Inl e \<Rightarrow> (Inl e, w5)
            | Inr table \<Rightarrow>
                (let w6 = emit (Dataframe table) w5;
                     w7 = emit (Title (''Financials for '' @ ?sel)) w6;
                     w8 = emit (Dataframe metr) w7;
                     w9 = show_metrics m w8
                 in case getitem sd ''Close'' of
                      Inl e \<Rightarrow> (Inl e, w9)
                    | Inr close \<Rightarrow> (Inr (), emit (LineChart [(''Close'', close)]) w9))))"
    unfolding display_stock_dashboard_def Let_def a1 by (simp add: a2)
  show ?thesis
  proof (cases "frame_empty sd")
    case True
    then have "display_stock_dashboard u w =
        (Inr (), w4\<lparr>trace := trace w4 @ [Warning ''No stock data available.'']\<rparr>)"
      by (simp add: d st_warning_def emit_def)
    with True show ?thesis by simp
  next
    case False
    show ?thesis
    proof (cases "select_columns sd [''Open'', ''High'', ''Low'', ''Close'', ''Volume'']")
      case (Inl e)
      with False have "display_stock_dashboard u w =
          (Inl e, w4\<lparr>trace := trace w4 @ [Write (''Data for '' @ ?sel)]\<rparr>)"
        by (simp add: d emit_def)
      with False show ?thesis
        by (intro exI[of _ "Inl e"] exI[of _ "[Write (''Data for '' @ ?sel)]"]) simp
    next
      case t: (Inr tbl)
      let ?w8 = "w4\<lparr>trace := trace w4 @ [Write (''Data for '' @ ?sel), Dataframe tbl,
                    Title (''Financials for '' @ ?sel), Dataframe metr]\<rparr>"
      from calls_show_metrics[of m ?w8] obtain mevs where
        sm: "show_metrics m ?w8 = ?w8\<lparr>trace := trace ?w8 @ mevs\<rparr>"
        and me: "calls mevs = []" "requests mevs = []" "sleeps mevs = []" by blast
      show ?thesis
      proof (cases "getitem sd ''Close''")
        case (Inl e)
        with False t sm have "display_stock_dashboard u w =
            (Inl e, w4\<lparr>trace := trace w4 @ ([Write (''Data for '' @ ?sel), Dataframe tbl,
                    Title (''Financials for '' @ ?sel), Dataframe metr] @ mevs)\<rparr>)"
          by (simp add: d emit_def)
        with False me show ?thesis
          by (intro exI[of _ "Inl e"] exI[of _ "[Write (''Data for '' @ ?sel), Dataframe tbl,
                    Title (''Financials for '' @ ?sel), Dataframe metr] @ mevs"]) simp
      next
        case (Inr close)
        with False t sm have "display_stock_dashboard u w =
            (Inr (), w4\<lparr>trace := trace w4 @ ([Write (''Data for '' @ ?sel), Dataframe tbl,
                    Title (''Financials for '' @ ?sel), Dataframe metr] @ mevs @
                    [LineChart [(''Close'', close)]])\<rparr>)"
          by (simp add: d emit_def)
        with False me show ?thesis
          by (intro exI[of _ "Inr ()"] exI[of _ "[Write (''Data for '' @ ?sel), Dataframe tbl,
                    Title (''Financials for '' @ ?sel), Dataframe metr] @ mevs @
                    [LineChart [(''Close'', close)]]"]) simp
      qed
    qed
  qed
qed

lemma retry_numeral:
  "retry (numeral k) body msg w =
     (case body w of
        (Inr v, w1) \<Rightarrow> (Some v, w1)
      | (Inl e, w1) \<Rightarrow> retry (pred_numeral k) body msg (time_sleep 60 (st_warning (msg e) w1)))"
  by (simp add: numeral_eq_Suc)

lemma selectbox_sample: "selectbox stocks (stock_choice sample_ui) = ''MSFT''"
  by (simp add: selectbox_def stocks_def sample_ui_def)

lemma display_stock_down:
  "sleeps (trace (snd (display_stock_dashboard sample_ui (fresh_world always_down)))) =
     [60, 60, 60, 60, 60, 60, 60, 60, 60, 60] \<and>
   requests (trace (snd (display_stock_dashboard sample_ui (fresh_world always_down)))) =
     [(History, ''MSFT''), (History, ''MSFT''), (History, ''MSFT''), (History, ''MSFT''),
      (History, ''MSFT''), (Financials, ''MSFT''), (Financials, ''MSFT''),
      (Financials, ''MSFT''), (Financials, ''MSFT''), (Financials, ''MSFT'')] \<and>
   fst (display_stock_dashboard sample_ui (fresh_world always_down)) = Inr () \<and>
   last (trace (snd (display_stock_dashboard sample_ui (fresh_world always_down)))) =
     Warning ''No stock data available.''"
  by (simp add: display_stock_dashboard_def sample_ui_def stocks_def selectbox_def Let_def
        cached_fetch_stock_data_safe_def cached_metrics_table_safe_def cache_lookup_def
        st_cache_data_clear_def fetch_stock_data_safe_def metrics_table_safe_def retry_numeral
        stock_attempt_def metrics_attempt_def yf_Ticker_def fresh_world_def always_down_def
        down_ticker_def emit_def st_warning_def st_error_def time_sleep_def frame_empty_def
        DataFrame_def)

section \<open>The claims\<close>

text \<open>
  C1 (as amended). When the provider fails on all 5 attempts, each fetch function
  (\<^verbatim>\<open>fetch_index_data_safe\<close>, \<^verbatim>\<open>fetch_stock_data_safe\<close>, \<^verbatim>\<open>metrics_table_safe\<close>) returns
  its explicitly empty result (an empty frame; an empty frame and an empty mapping) and
  performs exactly 5 delays of 60 seconds, one after each failed attempt: the last delay
  comes after the final attempt, right before the closing error message.
\<close>

theorem exhausted_fetch_sleeps_after_every_attempt:
  "((\<forall>k<5. isl (index_outcome (provider w k t))) \<longrightarrow>
      fst (fetch_index_data_safe t w) = Inr DataFrame \<and>
      sleeps (events_since w (snd (fetch_index_data_safe t w))) = [60, 60, 60, 60, 60] \<and>
      (\<exists>evs. events_since w (snd (fetch_index_data_safe t w)) =
          evs @ [Sleep 60, Error (''Could not fetch data for '' @ t @ '' after multiple attempts.'')])) \<and>
   ((\<forall>k<5. isl (stock_outcome (provider w k t))) \<longrightarrow>
      fst (fetch_stock_data_safe t w) = Inr (DataFrame, []) \<and>
      sleeps (events_since w (snd (fetch_stock_data_safe t w))) = [60, 60, 60, 60, 60] \<and>
      (\<exists>evs. events_since w (snd (fetch_stock_data_safe t w)) =
          evs @ [Sleep 60, Error (''Could not fetch data for '' @ t @ '' after multiple attempts.'')])) \<and>
   ((\<forall>k<5. isl (metrics_outcome (provider w k t))) \<longrightarrow>
      fst (metrics_table_safe t w) = Inr DataFrame \<and>
      sleeps (events_since w (snd (metrics_table_safe t w))) = [60, 60, 60, 60, 60] \<and>
      (\<exists>evs. events_since w (snd (metrics_table_safe t w)) =
          evs @ [Sleep 60, Error (''Could not fetch financial data for '' @ t @ '' after multiple attempts.'')]))"
proof (intro conjI impI)
  assume a: "\<forall>k<5. isl (index_outcome (provider w k t))"
  note eq = fetch_index_exhausted[OF a]
  show "fst (fetch_index_data_safe t w) = Inr DataFrame" by (simp add: eq)
  show "sleeps (events_since w (snd (fetch_index_data_safe t w))) = [60, 60, 60, 60, 60]"
    by (simp add: eq events_since_def sleeps_failed_events eval_nat_numeral)
  show "\<exists>evs. events_since w (snd (fetch_index_data_safe t w)) =
          evs @ [Sleep 60, Error (''Could not fetch data for '' @ t @ '' after multiple attempts.'')]"
    by (rule exhausted_ends_with_sleep) (simp add: eq)
next
  assume a: "\<forall>k<5. isl (stock_outcome (provider w k t))"
  note eq = fetch_stock_exhausted[OF a]
  show "fst (fetch_stock_data_safe t w) = Inr (DataFrame, [])" by (simp add: eq)
  show "sleeps (events_since w (snd (fetch_stock_data_safe t w))) = [60, 60, 60, 60, 60]"
    by (simp add: eq events_since_def sleeps_failed_events eval_nat_numeral)
  show "\<exists>evs. events_since w (snd (fetch_stock_data_safe t w)) =
          evs @ [Sleep 60, Error (''Could not fetch data for '' @ t @ '' after multiple attempts.'')]"
    by (rule exhausted_ends_with_sleep) (simp add: eq)
next
  assume a: "\<forall>k<5. isl (metrics_outcome (provider w k t))"
  note eq = metrics_table_exhausted[OF a]
  show "fst (metrics_table_safe t w) = Inr DataFrame" by (simp add: eq)
  show "sleeps (events_since w (snd (metrics_table_safe t w))) = [60, 60, 60, 60, 60]"
    by (simp add: eq events_since_def sleeps_failed_events eval_nat_numeral)
  show "\<exists>evs. events_since w (snd (metrics_table_safe t w)) =
          evs @ [Sleep 60, Error (''Could not fetch financial data for '' @ t @ '' after multiple attempts.'')]"
    by (rule exhausted_ends_with_sleep) (simp add: eq)
qed


theorem exhausted_fetch_sleeps_after_every_attempt_witness:
  "fst (fetch_index_data_safe ''^GSPC'' (fresh_world always_down)) = Inr DataFrame \<and>
   sleeps (events_since (fresh_world always_down)
      (snd (fetch_index_data_safe ''^GSPC'' (fresh_world always_down)))) = [60, 60, 60, 60, 60] \<and>
   fst (fetch_stock_data_safe ''AAPL'' (fresh_world always_down)) = Inr (DataFrame, []) \<and>
   sleeps (events_since (fresh_world always_down)
      (snd (fetch_stock_data_safe ''AAPL'' (fresh_world always_down)))) = [60, 60, 60, 60, 60] \<and>
   fst (metrics_table_safe ''AAPL'' (fresh_world always_down)) = Inr DataFrame \<and>
   sleeps (events_since (fresh_world always_down)
      (snd (metrics_table_safe ''AAPL'' (fresh_world always_down)))) = [60, 60, 60, 60, 60]"
  using exhausted_fetch_sleeps_after_every_attempt[of "fresh_world always_down" "''^GSPC''"]
    exhausted_fetch_sleeps_after_every_attempt[of "fresh_world always_down" "''AAPL''"]
  by (simp add: fresh_world_def always_down_def down_ticker_def index_outcome_def
        stock_outcome_def metrics_outcome_def and_then_def)

text \<open>
  C1 as stated (exactly 4 delays, none after the final attempt) fails: with a provider
  that is always down, \<^verbatim>\<open>fetch_index_data_safe\<close> sleeps 5 times, and the last three events
  of the run are the fifth warning, a delay of 60 seconds and the closing error.
\<close>

theorem exhausted_fetch_four_delays_counterexample:
  "sleeps (trace (snd (fetch_index_data_safe ''^GSPC'' (fresh_world always_down)))) =
     [60, 60, 60, 60, 60] \<and>
   length (sleeps (trace (snd (fetch_index_data_safe ''^GSPC'' (fresh_world always_down))))) \<noteq> 4 \<and>
   drop 13 (trace (snd (fetch_index_data_safe ''^GSPC'' (fresh_world always_down)))) =
     [Warning ''Error fetching ^GSPC: Too Many Requests. Retrying in 60 seconds...'',
      Sleep 60,
      Error ''Could not fetch data for ^GSPC after multiple attempts.'']"
  by (simp add: fetch_index_data_safe_def eval_nat_numeral index_attempt_def yf_Ticker_def
        fresh_world_def always_down_def down_ticker_def and_then_def emit_def st_warning_def
        st_error_def time_sleep_def fetch_warning_def)

text \<open>
  C2. Whatever the provider answers (exceptions or malformed responses, in any order), no
  exception leaves a fetch function: each of the three returns a value, which is the
  result of the first attempt that succeeds among the 5, the failures before it having
  been caught, or the empty result (empty frame, or empty frame and empty mapping) when
  all 5 attempts fail.
\<close>

theorem fetch_never_raises:
  "(\<exists>v. fst (fetch_index_data_safe t w) = Inr v \<and>
      ((\<exists>k<5. (\<forall>j<k. isl (index_outcome (provider w j t))) \<and>
               index_outcome (provider w k t) = Inr v) \<or>
       ((\<forall>k<5. isl (index_outcome (provider w k t))) \<and> v = DataFrame))) \<and>
   (\<exists>v. fst (fetch_stock_data_safe t w) = Inr v \<and>
      ((\<exists>k<5. (\<forall>j<k. isl (stock_outcome (provider w j t))) \<and>
               stock_outcome (provider w k t) = Inr v) \<or>
       ((\<forall>k<5. isl (stock_outcome (provider w k t))) \<and> v = (DataFrame, [])))) \<and>
   (\<exists>v. fst (metrics_table_safe t w) = Inr v \<and>
      ((\<exists>k<5. (\<forall>j<k. isl (metrics_outcome (provider w j t))) \<and>
               metrics_outcome (provider w k t) = Inr v) \<or>
       ((\<forall>k<5. isl (metrics_outcome (provider w k t))) \<and> v = DataFrame)))"
  using fetch_index_result[of t w] fetch_stock_result[of t w] metrics_table_result[of t w]
  by blast

theorem fetch_never_raises_witness:
  "fst (fetch_index_data_safe ''^GSPC'' (fresh_world always_down)) = Inr DataFrame \<and>
   fst (fetch_stock_data_safe ''AAPL'' (fresh_world always_down)) = Inr (DataFrame, []) \<and>
   fst (metrics_table_safe ''AAPL'' (fresh_world always_down)) = Inr DataFrame \<and>
   fst (fetch_index_data_safe ''^GSPC'' (fresh_world down_once)) = Inr sample_indicators"
proof -
  have "fresh_world down_once = (fresh_world down_once)\<lparr>provider := down_once\<rparr>"
    by (simp add: fresh_world_def)
  then have s: "fst (fetch_index_data_safe ''^GSPC'' (fresh_world down_once)) = Inr sample_indicators"
    using fetch_index_down_once[of "''^GSPC''" "fresh_world down_once"] by simp
  have d: "fst (fetch_index_data_safe ''^GSPC'' (fresh_world always_down)) = Inr DataFrame \<and>
      fst (fetch_stock_data_safe ''AAPL'' (fresh_world always_down)) = Inr (DataFrame, []) \<and>
      fst (metrics_table_safe ''AAPL'' (fresh_world always_down)) = Inr DataFrame"
    using fetch_never_raises[of "''^GSPC''" "fresh_world always_down"]
      fetch_never_raises[of "''AAPL''" "fresh_world always_down"]
    by (auto simp add: fresh_world_def always_down_def down_ticker_def index_outcome_def
          stock_outcome_def metrics_outcome_def and_then_def)
  from d s show ?thesis by simp
qed

text \<open>
  C3 (as amended). For every symbol and each of the three cached fetch functions: when a
  call is followed by a second call with the same symbol, with no invalidation in between
  and while the entry is within its time-to-live of 3600 seconds, the second call is a
  cache hit. It returns a result equal to the first and changes nothing but the record of
  the call: no query to the provider, no retry, no delay. So the provider is contacted
  during the first call only, by one run of the retry loop (up to 5 attempts).
\<close>

theorem second_fetch_is_a_cache_hit:
  "(cached_fetch_index_data_safe t w = (r1, w1) \<and> index_cache w2 = index_cache w1 \<and>
      (\<exists>v created. index_cache w1 t = Some (v, created) \<and> clock w2 \<le> created + 3600) \<longrightarrow>
      cached_fetch_index_data_safe t w2 = (r1, emit (Call FetchIndex t) w2)) \<and>
   (cached_fetch_stock_data_safe t w = (r1', w1) \<and> stock_cache w2 = stock_cache w1 \<and>
      (\<exists>v created. stock_cache w1 t = Some (v, created) \<and> clock w2 \<le> created + 3600) \<longrightarrow>
      cached_fetch_stock_data_safe t w2 = (r1', emit (Call FetchStock t) w2)) \<and>
   (cached_metrics_table_safe t w = (r1, w1) \<and> metrics_cache w2 = metrics_cache w1 \<and>
      (\<exists>v created. metrics_cache w1 t = Some (v, created) \<and> clock w2 \<le> created + 3600) \<longrightarrow>
      cached_metrics_table_safe t w2 = (r1, emit (Call MetricsTable t) w2))"
  using cached_index_again[of t w r1 w1 w2] cached_stock_again[of t w r1' w1 w2]
    cached_metrics_again[of t w r1 w1 w2]
  by blast

theorem second_fetch_is_a_cache_hit_witness:
  "cached_fetch_index_data_safe ''^GSPC''
     ((snd (cached_fetch_index_data_safe ''^GSPC'' (fresh_world down_once)))\<lparr>clock := 1800\<rparr>) =
     (Inr sample_indicators,
      emit (Call FetchIndex ''^GSPC'')
        ((snd (cached_fetch_index_data_safe ''^GSPC'' (fresh_world down_once)))\<lparr>clock := 1800\<rparr>)) \<and>
   index_cache (snd (cached_fetch_index_data_safe ''^GSPC'' (fresh_world down_once))) ''^GSPC'' =
     Some (sample_indicators, 60) \<and>
   cached_fetch_stock_data_safe ''AAPL''
     ((snd (cached_fetch_stock_data_safe ''AAPL'' (fresh_world down_once)))\<lparr>clock := 1800\<rparr>) =
     (fst (cached_fetch_stock_data_safe ''AAPL'' (fresh_world down_once)),
      emit (Call FetchStock ''AAPL'')
        ((snd (cached_fetch_stock_data_safe ''AAPL'' (fresh_world down_once)))\<lparr>clock := 1800\<rparr>)) \<and>
   cached_metrics_table_safe ''AAPL''
     ((snd (cached_metrics_table_safe ''AAPL'' (fresh_world down_once)))\<lparr>clock := 1800\<rparr>) =
     (fst (cached_metrics_table_safe ''AAPL'' (fresh_world down_once)),
      emit (Call MetricsTable ''AAPL'')
        ((snd (cached_metrics_table_safe ''AAPL'' (fresh_world down_once)))\<lparr>clock := 1800\<rparr>))"
proof -
  let ?X = "cached_fetch_index_data_safe ''^GSPC'' (fresh_world down_once)"
  let ?w2 = "(snd ?X)\<lparr>clock := 1800\<rparr>"
  have c: "index_cache (snd ?X) ''^GSPC'' = Some (sample_indicators, 60)"
    by (simp add: cached_index_down_once)
  have r: "fst ?X = Inr sample_indicators" by (simp add: cached_index_down_once)
  have h: "?X = (fst ?X, snd ?X) \<and> index_cache ?w2 = index_cache (snd ?X) \<and>
      (\<exists>v created. index_cache (snd ?X) ''^GSPC'' = Some (v, created) \<and>
         clock ?w2 \<le> created + 3600)"
    using c by simp
  from mp[OF conjunct1[OF second_fetch_is_a_cache_hit] h]
  have 1: "cached_fetch_index_data_safe ''^GSPC'' ?w2 =
          (fst ?X, emit (Call FetchIndex ''^GSPC'') ?w2)" .
  let ?Y = "cached_fetch_stock_data_safe ''AAPL'' (fresh_world down_once)"
  let ?w2s = "(snd ?Y)\<lparr>clock := 1800\<rparr>"
  from cached_stock_effect[of "''AAPL''" "fresh_world down_once"]
  have "\<exists>v created. stock_cache (snd ?Y) ''AAPL'' = Some (v, created)" by auto
  then have hs: "?Y = (fst ?Y, snd ?Y) \<and> stock_cache ?w2s = stock_cache (snd ?Y) \<and>
      (\<exists>v created. stock_cache (snd ?Y) ''AAPL'' = Some (v, created) \<and>
         clock ?w2s \<le> created + 3600)"
    by auto
  from mp[OF conjunct1[OF conjunct2[OF second_fetch_is_a_cache_hit]] hs]
  have 2: "cached_fetch_stock_data_safe ''AAPL'' ?w2s =
          (fst ?Y, emit (Call FetchStock ''AAPL'') ?w2s)" .
  let ?Z = "cached_metrics_table_safe ''AAPL'' (fresh_world down_once)"
  let ?w2m = "(snd ?Z)\<lparr>clock := 1800\<rparr>"
  from cached_metrics_effect[of "''AAPL''" "fresh_world down_once"]
  have "\<exists>v created. metrics_cache (snd ?Z) ''AAPL'' = Some (v, created)" by auto
  then have hm: "?Z = (fst ?Z, snd ?Z) \<and> metrics_cache ?w2m = metrics_cache (snd ?Z) \<and>
      (\<exists>v created. metrics_cache (snd ?Z) ''AAPL'' = Some (v, created) \<and>
         clock ?w2m \<le> created + 3600)"
    by auto
  from mp[OF conjunct2[OF conjunct2[OF second_fetch_is_a_cache_hit]] hm]
  have 3: "cached_metrics_table_safe ''AAPL'' ?w2m =
          (fst ?Z, emit (Call MetricsTable ''AAPL'') ?w2m)" .
  from 1 r c 2 3 show ?thesis by simp
qed

text \<open>
  C3 as stated (the provider is invoked at most once) fails: when the provider fails the
  first attempt and answers the second, two calls of the cached \<^verbatim>\<open>fetch_index_data_safe\<close>
  in a row, 60 seconds after the start, have sent two queries to the provider, both during
  the first call.
\<close>

theorem two_fetches_two_provider_calls_counterexample:
  "requests (trace (snd (cached_fetch_index_data_safe ''^GSPC''
      (snd (cached_fetch_index_data_safe ''^GSPC'' (fresh_world down_once)))))) =
     [(History, ''^GSPC''), (History, ''^GSPC'')] \<and>
   clock (snd (cached_fetch_index_data_safe ''^GSPC''
      (snd (cached_fetch_index_data_safe ''^GSPC'' (fresh_world down_once))))) = 60 \<and>
   \<not> length (requests (trace (snd (cached_fetch_index_data_safe ''^GSPC''
      (snd (cached_fetch_index_data_safe ''^GSPC'' (fresh_world down_once))))))) \<le> 1"
proof -
  have "cached_fetch_index_data_safe ''^GSPC''
      (snd (cached_fetch_index_data_safe ''^GSPC'' (fresh_world down_once))) =
     (Inr sample_indicators,
      \<lparr>provider = (\<lambda>j. down_once (j + 2)), clock = 60,
       trace = [Call FetchIndex ''^GSPC'', Request History ''^GSPC'',
                Warning (fetch_warning ''^GSPC'' (Exn ProviderError ''Too Many Requests'')),
                Sleep 60,
                Request History ''^GSPC'', Call FetchIndex ''^GSPC''],
       index_cache = [''^GSPC'' \<mapsto> (sample_indicators, 60)],
       stock_cache = Map.empty, metrics_cache = Map.empty\<rparr>)"
    unfolding cached_index_down_once
    by (simp add: cached_fetch_index_data_safe_def Let_def emit_def cache_lookup_def)
  then show ?thesis by simp
qed




text \<open>
  C5 (as amended). For every series that \<^verbatim>\<open>fetch_index_data_safe\<close> returns from a successful
  attempt, \<^verbatim>\<open>SMA_20\<close> and \<^verbatim>\<open>Volatility\<close> are undefined (NaN) on every one of the first 19
  rows. \<^verbatim>\<open>EMA_20\<close> is not: it is undefined on a row exactly when \<^verbatim>\<open>Close\<close> is undefined
  on that row and on all the rows before it, so it is defined from the first row that has
  a closing price.
\<close>

theorem indicators_of_first_rows:
  "fst (fetch_index_data_safe t w) = Inr f \<longrightarrow>
     f = DataFrame \<or>
     (\<exists>close sma ema vol.
        getitem f ''Close'' = Inr close \<and> getitem f ''SMA_20'' = Inr sma \<and>
        getitem f ''EMA_20'' = Inr ema \<and> getitem f ''Volatility'' = Inr vol \<and>
        length sma = length close \<and> length ema = length close \<and> length vol = length close \<and>
        (\<forall>i<19. i < length close \<longrightarrow> sma ! i = None \<and> vol ! i = None) \<and>
        (\<forall>i<length close. (ema ! i = None) = (\<forall>j\<le>i. close ! j = None)))"
proof
  assume r: "fst (fetch_index_data_safe t w) = Inr f"
  from fetch_index_result[of t w] obtain v where
    v: "fst (fetch_index_data_safe t w) = Inr v"
    and d: "(\<exists>k<5. (\<forall>j<k. isl (index_outcome (provider w j t))) \<and>
               index_outcome (provider w k t) = Inr v) \<or>
       ((\<forall>k<5. isl (index_outcome (provider w k t))) \<and> v = DataFrame)"
    by blast
  from r v have vf: "v = f" by simp
  from d show "f = DataFrame \<or>
     (\<exists>close sma ema vol.
        getitem f ''Close'' = Inr close \<and> getitem f ''SMA_20'' = Inr sma \<and>
        getitem f ''EMA_20'' = Inr ema \<and> getitem f ''Volatility'' = Inr vol \<and>
        length sma = length close \<and> length ema = length close \<and> length vol = length close \<and>
        (\<forall>i<19. i < length close \<longrightarrow> sma ! i = None \<and> vol ! i = None) \<and>
        (\<forall>i<length close. (ema ! i = None) = (\<forall>j\<le>i. close ! j = None)))"
  proof
    assume "(\<forall>k<5. isl (index_outcome (provider w k t))) \<and> v = DataFrame"
    with vf show ?thesis by simp
  next
    assume "\<exists>k<5. (\<forall>j<k. isl (index_outcome (provider w j t))) \<and>
               index_outcome (provider w k t) = Inr v"
    then obtain k where "index_outcome (provider w k t) = Inr f" using vf by blast
    from index_outcome_columns[OF this] obtain close where
      c: "getitem f ''Close'' = Inr close"
         "getitem f ''SMA_20'' = Inr (rolling_mean 20 close)"
         "getitem f ''EMA_20'' = Inr (ewm_mean 20 close)"
         "getitem f ''Volatility'' = Inr (rolling_std 20 close)"
      by blast
    from indicator_columns_early[OF c] show ?thesis ..
  qed
qed

theorem indicators_of_first_rows_witness:
  "fst (fetch_index_data_safe ''^GSPC'' (fresh_world always_up)) =
     Inr \<lparr>index = [''2024-01-02''],
          columns = [(''Open'', [Some 99]), (''High'', [Some 101]), (''Low'', [Some 98]),
                     (''Close'', [Some 100]), (''Volume'', [Some 5000]),
                     (''SMA_20'', [None]), (''EMA_20'', [Some 100]), (''Volatility'', [None])]\<rparr> \<and>
   getitem \<lparr>index = [''2024-01-02''],
          columns = [(''Open'', [Some 99]), (''High'', [Some 101]), (''Low'', [Some 98]),
                     (''Close'', [Some 100]), (''Volume'', [Some 5000]),
                     (''SMA_20'', [None]), (''EMA_20'', [Some 100]), (''Volatility'', [None])]\<rparr>
      ''SMA_20'' = Inr [None]"
  using indicators_of_first_rows[of "''^GSPC''" "fresh_world always_up"]
  by (simp add: fetch_index_data_safe_def eval_nat_numeral index_attempt_def yf_Ticker_def
        fresh_world_def always_up_def up_ticker_def sample_history_def and_then_def emit_def
        add_indicators_def getitem_def setitem_def rolling_mean_def rolling_std_def
        ewm_mean_def window_at_def Let_def)

text \<open>
  C5 as stated fails for \<^verbatim>\<open>EMA_20\<close>: on a history of one row with the closing price 100,
  the series returned has \<^verbatim>\<open>EMA_20\<close> = 100 on its first row (and \<^verbatim>\<open>SMA_20\<close>, \<^verbatim>\<open>Volatility\<close>
  undefined there).
\<close>

theorem early_ema_undefined_counterexample:
  "fst (fetch_index_data_safe ''^GSPC'' (fresh_world always_up)) =
     Inr \<lparr>index = [''2024-01-02''],
          columns = [(''Open'', [Some 99]), (''High'', [Some 101]), (''Low'', [Some 98]),
                     (''Close'', [Some 100]), (''Volume'', [Some 5000]),
                     (''SMA_20'', [None]), (''EMA_20'', [Some 100]), (''Volatility'', [None])]\<rparr>"
  by (simp add: fetch_index_data_safe_def eval_nat_numeral index_attempt_def yf_Ticker_def
        fresh_world_def always_up_def up_ticker_def sample_history_def and_then_def emit_def
        add_indicators_def getitem_def setitem_def rolling_mean_def rolling_std_def
        ewm_mean_def window_at_def Let_def)



text \<open>
  C7. The retry button of either dashboard clears the entire cache, not only the entry of
  the selected symbol: after a run of the index dashboard with its button clicked, the
  caches of the two stock functions are empty and the index cache holds nothing for any
  other symbol, and the selected symbol has been fetched from the provider again; likewise
  for the stock dashboard. \<^verbatim>\<open>st.cache_data.clear()\<close> empties the three caches, and right after
  it a fetch of any symbol through any of the three functions queries the provider.
\<close>

theorem retry_button_clears_whole_cache:
  "(retry_index_clicked u \<longrightarrow>
      stock_cache (snd (display_index_dashboard u w)) = Map.empty \<and>
      metrics_cache (snd (display_index_dashboard u w)) = Map.empty \<and>
      (\<forall>s. s \<noteq> selectbox indices (index_choice u) \<longrightarrow>
           index_cache (snd (display_index_dashboard u w)) s = None) \<and>
      (History, selectbox indices (index_choice u)) \<in>
        set (requests (events_since w (snd (display_index_dashboard u w))))) \<and>
   (retry_stock_clicked u \<longrightarrow>
      index_cache (snd (display_stock_dashboard u w)) = Map.empty \<and>
      (\<forall>s. s \<noteq> selectbox stocks (stock_choice u) \<longrightarrow>
           stock_cache (snd (display_stock_dashboard u w)) s = None \<and>
           metrics_cache (snd (display_stock_dashboard u w)) s = None) \<and>
      (History, selectbox stocks (stock_choice u)) \<in>
        set (requests (events_since w (snd (display_stock_dashboard u w)))) \<and>
      (Financials, selectbox stocks (stock_choice u)) \<in>
        set (requests (events_since w (snd (display_stock_dashboard u w))))) \<and>
   index_cache (st_cache_data_clear w) = Map.empty \<and>
   stock_cache (st_cache_data_clear w) = Map.empty \<and>
   metrics_cache (st_cache_data_clear w) = Map.empty \<and>
   (History, s) \<in> set (requests (events_since (st_cache_data_clear w)
      (snd (cached_fetch_index_data_safe s (st_cache_data_clear w))))) \<and>
   (History, s) \<in> set (requests (events_since (st_cache_data_clear w)
      (snd (cached_fetch_stock_data_safe s (st_cache_data_clear w))))) \<and>
   (Financials, s) \<in> set (requests (events_since (st_cache_data_clear w)
      (snd (cached_metrics_table_safe s (st_cache_data_clear w)))))"
proof (intro conjI impI)
  assume clicked: "retry_index_clicked u"
  let ?sel = "selectbox indices (index_choice u)"
  let ?w2 = "st_cache_data_clear (emit (Title ''Industry Indices Dashboard'') w)"
  have l: "cache_lookup 3600 (clock ?w2) (index_cache ?w2) ?sel = None"
    by (simp add: st_cache_data_clear_def)
  from cached_index_miss[OF l] obtain v p c evs where
    m: "cached_fetch_index_data_safe ?sel ?w2 =
      (Inr v, ?w2\<lparr>provider := p, clock := c, trace := trace ?w2 @ Call FetchIndex ?sel # evs,
                 index_cache := (index_cache ?w2)(?sel \<mapsto> (v, c))\<rparr>)"
    and e: "(History, ?sel) \<in> set (requests evs)" by blast
  let ?w3 = "?w2\<lparr>provider := p, clock := c, trace := trace ?w2 @ Call FetchIndex ?sel # evs,
                 index_cache := (index_cache ?w2)(?sel \<mapsto> (v, c))\<rparr>"
  from m clicked have "cached_fetch_index_data_safe ?sel
             (if retry_index_clicked u
              then st_cache_data_clear (emit (Title ''Industry Indices Dashboard'') w)
              else emit (Title ''Industry Indices Dashboard'') w) = (Inr v, ?w3)"
    by simp
  from display_index_after[OF this] obtain evs' where
    d: "snd (display_index_dashboard u w) = ?w3\<lparr>trace := trace ?w3 @ evs'\<rparr>" by blast
  show "stock_cache (snd (display_index_dashboard u w)) = Map.empty"
    by (simp add: d st_cache_data_clear_def)
  show "metrics_cache (snd (display_index_dashboard u w)) = Map.empty"
    by (simp add: d st_cache_data_clear_def)
  show "\<forall>s. s \<noteq> ?sel \<longrightarrow> index_cache (snd (display_index_dashboard u w)) s = None"
    by (simp add: d st_cache_data_clear_def)
  have "trace (snd (display_index_dashboard u w)) =
      trace w @ ([Title ''Industry Indices Dashboard''] @ (Call FetchIndex ?sel # evs) @ evs')"
    by (simp add: d st_cache_data_clear_def emit_def)
  from events_since_append[OF this] e
  show "(History, ?sel) \<in> set (requests (events_since w (snd (display_index_dashboard u w))))"
    by simp
next
  assume clicked: "retry_stock_clicked u"
  let ?sel = "selectbox stocks (stock_choice u)"
  let ?w2 = "st_cache_data_clear (emit (Title ''Stocks Dashboard'') w)"
  have l: "cache_lookup 3600 (clock ?w2) (stock_cache ?w2) ?sel = None"
    by (simp add: st_cache_data_clear_def)
  from cached_stock_miss[OF l] obtain v p c evs where
    m: "cached_fetch_stock_data_safe ?sel ?w2 =
      (Inr v, ?w2\<lparr>provider := p, clock := c, trace := trace ?w2 @ Call FetchStock ?sel # evs,
                 stock_cache := (stock_cache ?w2)(?sel \<mapsto> (v, c))\<rparr>)"
    and e: "(History, ?sel) \<in> set (requests evs)" by blast
  let ?w3 = "?w2\<lparr>provider := p, clock := c, trace := trace ?w2 @ Call FetchStock ?sel # evs,
                 stock_cache := (stock_cache ?w2)(?sel \<mapsto> (v, c))\<rparr>"
  obtain sd mt where v: "v = (sd, mt)" by (cases v)
  have l2: "cache_lookup 3600 (clock ?w3) (metrics_cache ?w3) ?sel = None"
    by (simp add: st_cache_data_clear_def)
  from cached_metrics_miss[OF l2] obtain v2 p2 c2 evs2 where
    m2: "cached_metrics_table_safe ?sel ?w3 =
      (Inr v2, ?w3\<lparr>provider := p2, clock := c2, trace := trace ?w3 @ Call MetricsTable ?sel # evs2,
                 metrics_cache := (metrics_cache ?w3)(?sel \<mapsto> (v2, c2))\<rparr>)"
    and e2: "(Financials, ?sel) \<in> set (requests evs2)" by blast
  let ?w4 = "?w3\<lparr>provider := p2, clock := c2, trace := trace ?w3 @ Call MetricsTable ?sel # evs2,
                 metrics_cache := (metrics_cache ?w3)(?sel \<mapsto> (v2, c2))\<rparr>"
  from m clicked v have "cached_fetch_stock_data_safe ?sel
             (if retry_stock_clicked u
              then st_cache_data_clear (emit (Title ''Stocks Dashboard'') w)
              else emit (Title ''Stocks Dashboard'') w) = (Inr (sd, mt), ?w3)"
    by simp
  from display_stock_after[OF this m2] obtain r evs' where
    d: "display_stock_dashboard u w = (r, ?w4\<lparr>trace := trace ?w4 @ evs'\<rparr>)" by blast
  show "index_cache (snd (display_stock_dashboard u w)) = Map.empty"
    by (simp add: d st_cache_data_clear_def)
  show "\<forall>s. s \<noteq> ?sel \<longrightarrow>
           stock_cache (snd (display_stock_dashboard u w)) s = None \<and>
           metrics_cache (snd (display_stock_dashboard u w)) s = None"
    by (simp add: d st_cache_data_clear_def)
  have tr: "trace (snd (display_stock_dashboard u w)) =
      trace w @ ([Title ''Stocks Dashboard''] @ (Call FetchStock ?sel # evs) @
                 (Call MetricsTable ?sel # evs2) @ evs')"
    by (simp add: d st_cache_data_clear_def emit_def)
  from events_since_append[OF tr] e
  show "(History, ?sel) \<in> set (requests (events_since w (snd (display_stock_dashboard u w))))"
    by simp
  from events_since_append[OF tr] e2
  show "(Financials, ?sel) \<in> set (requests (events_since w (snd (display_stock_dashboard u w))))"
    by simp
next
  show "index_cache (st_cache_data_clear w) = Map.empty" by (simp add: st_cache_data_clear_def)
  show "stock_cache (st_cache_data_clear w) = Map.empty" by (simp add: st_cache_data_clear_def)
  show "metrics_cache (st_cache_data_clear w) = Map.empty" by (simp add: st_cache_data_clear_def)
next
  let ?w = "st_cache_data_clear w"
  have l: "cache_lookup 3600 (clock ?w) (index_cache ?w) s = None"
    by (simp add: st_cache_data_clear_def)
  from cached_index_miss[OF l] obtain v p c evs where
    m: "cached_fetch_index_data_safe s ?w =
      (Inr v, ?w\<lparr>provider := p, clock := c, trace := trace ?w @ Call FetchIndex s # evs,
                 index_cache := (index_cache ?w)(s \<mapsto> (v, c))\<rparr>)"
    and e: "(History, s) \<in> set (requests evs)" by blast
  have "trace (snd (cached_fetch_index_data_safe s ?w)) = trace ?w @ (Call FetchIndex s # evs)"
    by (simp add: m)
  from events_since_append[OF this] e
  show "(History, s) \<in> set (requests (events_since ?w (snd (cached_fetch_index_data_safe s ?w))))"
    by simp
next
  let ?w = "st_cache_data_clear w"
  have l: "cache_lookup 3600 (clock ?w) (stock_cache ?w) s = None"
    by (simp add: st_cache_data_clear_def)
  from cached_stock_miss[OF l] obtain v p c evs where
    m: "cached_fetch_stock_data_safe s ?w =
      (Inr v, ?w\<lparr>provider := p, clock := c, trace := trace ?w @ Call FetchStock s # evs,
                 stock_cache := (stock_cache ?w)(s \<mapsto> (v, c))\<rparr>)"
    and e: "(History, s) \<in> set (requests evs)" by blast
  have "trace (snd (cached_fetch_stock_data_safe s ?w)) = trace ?w @ (Call FetchStock s # evs)"
    by (simp add: m)
  from events_since_append[OF this] e
  show "(History, s) \<in> set (requests (events_since ?w (snd (cached_fetch_stock_data_safe s ?w))))"
    by simp
next
  let ?w = "st_cache_data_clear w"
  have l: "cache_lookup 3600 (clock ?w) (metrics_cache ?w) s = None"
    by (simp add: st_cache_data_clear_def)
  from cached_metrics_miss[OF l] obtain v p c evs where
    m: "cached_metrics_table_safe s ?w =
      (Inr v, ?w\<lparr>provider := p, clock := c, trace := trace ?w @ Call MetricsTable s # evs,
                 metrics_cache := (metrics_cache ?w)(s \<mapsto> (v, c))\<rparr>)"
    and e: "(Financials, s) \<in> set (requests evs)" by blast
  have "trace (snd (cached_metrics_table_safe s ?w)) = trace ?w @ (Call MetricsTable s # evs)"
    by (simp add: m)
  from events_since_append[OF this] e
  show "(Financials, s) \<in> set (requests (events_since ?w (snd (cached_metrics_table_safe s ?w))))"
    by simp
qed

theorem retry_button_clears_whole_cache_witness:
  "retry_index_clicked sample_ui \<and> retry_stock_clicked sample_ui \<and>
   cache_lookup 3600 (clock (cached_world always_up)) (index_cache (cached_world always_up))
     ''^DJI'' = Some sample_history \<and>
   cache_lookup 3600 (clock (cached_world always_up)) (stock_cache (cached_world always_up))
     ''AAPL'' = Some (sample_history, []) \<and>
   index_cache (snd (display_index_dashboard sample_ui (cached_world always_up))) ''^DJI'' = None \<and>
   stock_cache (snd (display_index_dashboard sample_ui (cached_world always_up))) ''AAPL'' = None \<and>
   metrics_cache (snd (display_index_dashboard sample_ui (cached_world always_up))) ''AAPL'' = None \<and>
   index_cache (snd (display_stock_dashboard sample_ui (cached_world always_up))) ''^DJI'' = None \<and>
   stock_cache (snd (display_stock_dashboard sample_ui (cached_world always_up))) ''AAPL'' = None \<and>
   metrics_cache (snd (display_stock_dashboard sample_ui (cached_world always_up))) ''AAPL'' = None \<and>
   (History, ''AAPL'') \<in> set (requests (events_since (st_cache_data_clear (cached_world always_up))
      (snd (cached_fetch_stock_data_safe ''AAPL'' (st_cache_data_clear (cached_world always_up))))))"
proof -
  note T = retry_button_clears_whole_cache[of sample_ui "cached_world always_up" "''AAPL''"]
  have c1: "retry_index_clicked sample_ui" by (simp add: sample_ui_def)
  have c2: "retry_stock_clicked sample_ui" by (simp add: sample_ui_def)
  note A = mp[OF conjunct1[OF T] c1]
  note B = mp[OF conjunct1[OF conjunct2[OF T]] c2]
  note C = conjunct2[OF conjunct2[OF T]]
  have s1: "selectbox indices (index_choice sample_ui) = ''^GSPC''"
    by (simp add: selectbox_def indices_def sample_ui_def)
  have s2: "selectbox stocks (stock_choice sample_ui) = ''MSFT''"
    by (simp add: selectbox_def stocks_def sample_ui_def)
  have l: "cache_lookup 3600 (clock (cached_world always_up)) (index_cache (cached_world always_up))
     ''^DJI'' = Some sample_history"
    "cache_lookup 3600 (clock (cached_world always_up)) (stock_cache (cached_world always_up))
     ''AAPL'' = Some (sample_history, [])"
    by (simp_all add: cache_lookup_def cached_world_def)
  from A have a: "index_cache (snd (display_index_dashboard sample_ui (cached_world always_up))) ''^DJI'' = None"
    "stock_cache (snd (display_index_dashboard sample_ui (cached_world always_up))) ''AAPL'' = None"
    "metrics_cache (snd (display_index_dashboard sample_ui (cached_world always_up))) ''AAPL'' = None"
    by (simp_all add: s1)
  from B have b: "index_cache (snd (display_stock_dashboard sample_ui (cached_world always_up))) ''^DJI'' = None"
    "stock_cache (snd (display_stock_dashboard sample_ui (cached_world always_up))) ''AAPL'' = None"
    "metrics_cache (snd (display_stock_dashboard sample_ui (cached_world always_up))) ''AAPL'' = None"
    by (simp_all add: s2)
  from C have c: "(History, ''AAPL'') \<in> set (requests (events_since (st_cache_data_clear (cached_world always_up))
      (snd (cached_fetch_stock_data_safe ''AAPL'' (st_cache_data_clear (cached_world always_up))))))"
    by blast
  from c1 c2 l a b c show ?thesis by (intro conjI)
qed

text \<open>
  C8. In \<^verbatim>\<open>metrics_table_safe\<close>, when the balance sheet or the income statement of the
  provider omits one of the selected line items (Total Assets, Total Debt; Total Revenue,
  EBITDA, Basic EPS, Operating Income, Operating Expense), the attempt fails with a
  \<^verbatim>\<open>KeyError\<close>; a failed attempt is followed by the warning, the delay and the remaining
  attempts of the loop; and the function never returns a partial snapshot: what it returns
  is the empty frame, after 5 failed attempts, or a table whose rows are exactly the
  selected line items.
\<close>

theorem partial_snapshot_never_returned:
  "(financials tk = Inr fin \<and> balance_sheet tk = Inr bs \<and>
      ((\<exists>l\<in>set balance_items. l \<notin> set (index bs)) \<or>
       (\<exists>l\<in>set income_items. l \<notin> set (index fin))) \<longrightarrow>
      (\<exists>m. metrics_outcome tk = Inl (Exn KeyError m))) \<and>
   (metrics_outcome (provider w 0 t) = Inl e \<longrightarrow>
      retry (Suc n) (metrics_attempt t) (financial_warning t) w =
        retry n (metrics_attempt t) (financial_warning t)
          (time_sleep 60 (st_warning (financial_warning t e) (snd (metrics_attempt t w))))) \<and>
   (fst (metrics_table_safe t w) = Inr f \<longrightarrow>
      ((\<forall>k<5. isl (metrics_outcome (provider w k t))) \<and> f = DataFrame) \<or>
      set (index f) = set (balance_items @ income_items))"
proof (intro conjI impI)
  assume "financials tk = Inr fin \<and> balance_sheet tk = Inr bs \<and>
      ((\<exists>l\<in>set balance_items. l \<notin> set (index bs)) \<or>
       (\<exists>l\<in>set income_items. l \<notin> set (index fin)))"
  then show "\<exists>m. metrics_outcome tk = Inl (Exn KeyError m)"
    using metrics_outcome_missing[of tk fin bs] by blast
next
  assume "metrics_outcome (provider w 0 t) = Inl e"
  then show "retry (Suc n) (metrics_attempt t) (financial_warning t) w =
        retry n (metrics_attempt t) (financial_warning t)
          (time_sleep 60 (st_warning (financial_warning t e) (snd (metrics_attempt t w))))"
    by (simp add: metrics_attempt_eq attempt_of_def)
next
  assume r: "fst (metrics_table_safe t w) = Inr f"
  from metrics_table_result[of t w] obtain v where
    v: "fst (metrics_table_safe t w) = Inr v"
    and d: "(\<exists>k<5. (\<forall>j<k. isl (metrics_outcome (provider w j t))) \<and>
               metrics_outcome (provider w k t) = Inr v) \<or>
       ((\<forall>k<5. isl (metrics_outcome (provider w k t))) \<and> v = DataFrame)"
    by blast
  from r v have vf: "v = f" by simp
  from d show "((\<forall>k<5. isl (metrics_outcome (provider w k t))) \<and> f = DataFrame) \<or>
      set (index f) = set (balance_items @ income_items)"
  proof
    assume "(\<forall>k<5. isl (metrics_outcome (provider w k t))) \<and> v = DataFrame"
    with vf have "(\<forall>k<5. isl (metrics_outcome (provider w k t))) \<and> f = DataFrame" by simp
    then show ?thesis by (rule disjI1)
  next
    assume "\<exists>k<5. (\<forall>j<k. isl (metrics_outcome (provider w j t))) \<and>
               metrics_outcome (provider w k t) = Inr v"
    then obtain k where "metrics_outcome (provider w k t) = Inr f" using vf by blast
    from metrics_outcome_Inr[OF this] show ?thesis by (rule disjI2)
  qed
qed

theorem partial_snapshot_never_returned_witness:
  "financials partial_ticker = Inr partial_income \<and>
   balance_sheet partial_ticker = Inr sample_balance \<and>
   ''EBITDA'' \<in> set income_items \<and> ''EBITDA'' \<notin> set (index partial_income) \<and>
   metrics_outcome partial_ticker = Inl (Exn KeyError (repr_str ''EBITDA'' @ '' not in index'')) \<and>
   fst (metrics_table_safe ''AAPL'' (fresh_world partial_once)) =
     Inr \<lparr>index = [''Total Assets'', ''Total Debt'', ''Total Revenue'', ''EBITDA'', ''Basic EPS'',
                   ''Operating Income'', ''Operating Expense''],
          columns = [(''2023-12-31'',
                      [Some 5000, Some 1200, Some 1000, Some 300, Some 6, Some 250, Some 500])]\<rparr> \<and>
   sleeps (trace (snd (metrics_table_safe ''AAPL'' (fresh_world partial_once)))) = [60]"
proof -
  have h1: "financials partial_ticker = Inr partial_income"
    "balance_sheet partial_ticker = Inr sample_balance"
    by (simp_all add: partial_ticker_def up_ticker_def)
  have h2: "''EBITDA'' \<in> set income_items" "''EBITDA'' \<notin> set (index partial_income)"
    by (simp_all add: income_items_def partial_income_def)
  from h1 h2 have h: "financials partial_ticker = Inr partial_income \<and>
      balance_sheet partial_ticker = Inr sample_balance \<and>
      ((\<exists>l\<in>set balance_items. l \<notin> set (index sample_balance)) \<or>
       (\<exists>l\<in>set income_items. l \<notin> set (index partial_income)))"
    by blast
  note c = mp[OF conjunct1[OF partial_snapshot_never_returned] h]
  have r: "fst (metrics_table_safe ''AAPL'' (fresh_world partial_once)) =
     Inr \<lparr>index = [''Total Assets'', ''Total Debt'', ''Total Revenue'', ''EBITDA'', ''Basic EPS'',
                   ''Operating Income'', ''Operating Expense''],
          columns = [(''2023-12-31'',
                      [Some 5000, Some 1200, Some 1000, Some 300, Some 6, Some 250, Some 500])]\<rparr>"
    by (simp add: metrics_table_partial_once)
  have s: "sleeps (trace (snd (metrics_table_safe ''AAPL'' (fresh_world partial_once)))) = [60]"
    by (simp add: metrics_table_partial_once)
  from c h1 h2 metrics_outcome_partial r s show ?thesis by (intro conjI) simp_all
qed

text \<open>
  C9. Each fetch function is deterministic with respect to the provider: two runs with the
  same symbol and the same answers of the provider return equal results, whatever the
  clock, the screen and the caches of the two runs are.
\<close>

theorem fetch_result_depends_on_provider_only:
  "provider w1 = provider w2 \<longrightarrow>
     fst (fetch_index_data_safe t w1) = fst (fetch_index_data_safe t w2) \<and>
     fst (fetch_stock_data_safe t w1) = fst (fetch_stock_data_safe t w2) \<and>
     fst (metrics_table_safe t w1) = fst (metrics_table_safe t w2)"
proof
  assume p: "provider w1 = provider w2"
  show "fst (fetch_index_data_safe t w1) = fst (fetch_index_data_safe t w2) \<and>
     fst (fetch_stock_data_safe t w1) = fst (fetch_stock_data_safe t w2) \<and>
     fst (metrics_table_safe t w1) = fst (metrics_table_safe t w2)"
    unfolding fetch_index_fst fetch_stock_fst metrics_table_fst
      index_attempt_eq stock_attempt_eq metrics_attempt_eq
    by (simp add: retry_value_provider[OF p])
qed

theorem fetch_result_depends_on_provider_only_witness:
  "fst (fetch_index_data_safe ''^GSPC'' (fresh_world down_once)) =
   fst (fetch_index_data_safe ''^GSPC'' (used_world down_once)) \<and>
   fst (fetch_stock_data_safe ''AAPL'' (fresh_world down_once)) =
   fst (fetch_stock_data_safe ''AAPL'' (used_world down_once)) \<and>
   fst (metrics_table_safe ''AAPL'' (fresh_world down_once)) =
   fst (metrics_table_safe ''AAPL'' (used_world down_once)) \<and>
   clock (fresh_world down_once) \<noteq> clock (used_world down_once)"
  using fetch_result_depends_on_provider_only[of "fresh_world down_once" "used_world down_once" "''^GSPC''"]
    fetch_result_depends_on_provider_only[of "fresh_world down_once" "used_world down_once" "''AAPL''"]
  by (simp add: fresh_world_def used_world_def)

text \<open>
  C10. Every run of \<^verbatim>\<open>display_stock_dashboard\<close> calls \<^verbatim>\<open>fetch_stock_data_safe\<close> and then
  \<^verbatim>\<open>metrics_table_safe\<close>, each exactly once and for the selected symbol, whether the stock
  history is empty or not. What the run puts on the screen after the two fetches comes
  after everything the two fetches did, and contains no call, no query and no delay; when
  the stock history is empty it is the warning alone, and the run ends there.
\<close>

theorem stock_dashboard_fetches_financials_once:
  "calls (events_since w (snd (display_stock_dashboard u w))) =
     [(FetchStock, selectbox stocks (stock_choice u)),
      (MetricsTable, selectbox stocks (stock_choice u))] \<and>
   (\<exists>sd m w3 metr w4 evs.
      cached_fetch_stock_data_safe (selectbox stocks (stock_choice u))
        (if retry_stock_clicked u
         then st_cache_data_clear (emit (Title ''Stocks Dashboard'') w)
         else emit (Title ''Stocks Dashboard'') w) = (Inr (sd, m), w3) \<and>
      cached_metrics_table_safe (selectbox stocks (stock_choice u)) w3 = (Inr metr, w4) \<and>
      trace (snd (display_stock_dashboard u w)) = trace w4 @ evs \<and>
      calls evs = [] \<and> requests evs = [] \<and> sleeps evs = [] \<and>
      (frame_empty sd \<longrightarrow>
         display_stock_dashboard u w = (Inr (), st_warning ''No stock data available.'' w4)))"
proof -
  let ?sel = "selectbox stocks (stock_choice u)"
  let ?w2 = "if retry_stock_clicked u
         then st_cache_data_clear (emit (Title ''Stocks Dashboard'') w)
         else emit (Title ''Stocks Dashboard'') w"
  have t2: "trace ?w2 = trace w @ [Title ''Stocks Dashboard'']"
    by (simp add: st_cache_data_clear_def emit_def)
  from cached_stock_effect[of ?sel ?w2] obtain v w3 evs1 where
    c1: "cached_fetch_stock_data_safe ?sel ?w2 = (Inr v, w3)"
    and tr1: "trace w3 = trace ?w2 @ Call FetchStock ?sel # evs1" "calls evs1 = []"
    by blast
  obtain sd m where v: "v = (sd, m)" by (cases v)
  from cached_metrics_effect[of ?sel w3] obtain metr w4 evs2 where
    c2: "cached_metrics_table_safe ?sel w3 = (Inr metr, w4)"
    and tr2: "trace w4 = trace w3 @ Call MetricsTable ?sel # evs2" "calls evs2 = []"
    by blast
  from display_stock_after[OF c1[unfolded v] c2] obtain r evs where
    d: "display_stock_dashboard u w = (r, w4\<lparr>trace := trace w4 @ evs\<rparr>)"
    and e: "calls evs = []" "requests evs = []" "sleeps evs = []"
    and em: "frame_empty sd \<longrightarrow> r = Inr () \<and> evs = [Warning ''No stock data available.'']"
    by blast
  have tr: "trace (snd (display_stock_dashboard u w)) =
      trace w @ ([Title ''Stocks Dashboard''] @ (Call FetchStock ?sel # evs1) @
                 (Call MetricsTable ?sel # evs2) @ evs)"
    by (simp add: d tr2 tr1 t2)
  have 1: "calls (events_since w (snd (display_stock_dashboard u w))) =
     [(FetchStock, ?sel), (MetricsTable, ?sel)]"
    unfolding events_since_append[OF tr] using tr1(2) tr2(2) e(1) by simp
  have 2: "trace (snd (display_stock_dashboard u w)) = trace w4 @ evs" by (simp add: d)
  have 3: "frame_empty sd \<longrightarrow>
         display_stock_dashboard u w = (Inr (), st_warning ''No stock data available.'' w4)"
    using em d by (simp add: st_warning_def emit_def)
  have "\<exists>sd m w3 metr w4 evs.
      cached_fetch_stock_data_safe ?sel ?w2 = (Inr (sd, m), w3) \<and>
      cached_metrics_table_safe ?sel w3 = (Inr metr, w4) \<and>
      trace (snd (display_stock_dashboard u w)) = trace w4 @ evs \<and>
      calls evs = [] \<and> requests evs = [] \<and> sleeps evs = [] \<and>
      (frame_empty sd \<longrightarrow>
         display_stock_dashboard u w = (Inr (), st_warning ''No stock data available.'' w4))"
    apply (rule exI[of _ sd])
    apply (rule exI[of _ m])
    apply (rule exI[of _ w3])
    apply (rule exI[of _ metr])
    apply (rule exI[of _ w4])
    apply (rule exI[of _ evs])
    apply (intro conjI c1[unfolded v] c2 2 e 3)
    done
  with 1 show ?thesis by (rule conjI)
qed

theorem stock_dashboard_fetches_financials_once_witness:
  "calls (events_since (fresh_world always_down)
      (snd (display_stock_dashboard sample_ui (fresh_world always_down)))) =
     [(FetchStock, ''MSFT''), (MetricsTable, ''MSFT'')] \<and>
   sleeps (trace (snd (display_stock_dashboard sample_ui (fresh_world always_down)))) =
     [60, 60, 60, 60, 60, 60, 60, 60, 60, 60] \<and>
   requests (trace (snd (display_stock_dashboard sample_ui (fresh_world always_down)))) =
     [(History, ''MSFT''), (History, ''MSFT''), (History, ''MSFT''), (History, ''MSFT''),
      (History, ''MSFT''), (Financials, ''MSFT''), (Financials, ''MSFT''),
      (Financials, ''MSFT''), (Financials, ''MSFT''), (Financials, ''MSFT'')] \<and>
   fst (display_stock_dashboard sample_ui (fresh_world always_down)) = Inr () \<and>
   last (trace (snd (display_stock_dashboard sample_ui (fresh_world always_down)))) =
     Warning ''No stock data available.''"
  using conjunct1[OF stock_dashboard_fetches_financials_once[of "fresh_world always_down" sample_ui]]
    display_stock_down
  by (simp add: selectbox_sample)

end
